theory Spec2Isabelle
  imports Complex_Main
begin

section \<open>Data model of the importer\<close>

text \<open>
  The theory embeds \<^verbatim>\<open>src/werkleitungs_importer.py\<close>, class \<^verbatim>\<open>WerkleitungsImporter\<close>.

  A spreadsheet cell as pandas hands it to the row loop: a number, the float NaN that pandas
  puts where a cell is empty, a text, or a date cell (nanoseconds since the epoch).
  A number is the real that a double denotes. Comparisons and the conversion to an integer
  are exact on doubles; the arithmetic of the length of a line rounds every operation to
  the nearest double, as the program does. A character of a text is a code point below
  256.
\<close>

datatype cell = Num real | NaN | Str string | Stamp int

text \<open>The nine column labels of \<^verbatim>\<open>required_columns\<close> in \<^verbatim>\<open>read_excel\<close>.\<close>

datatype column =
  Leitung_ID | Material | Durchmesser_mm | X_Start | Y_Start | X_End | Y_End
  | Verlegedatum | Bemerkung

text \<open>
  The second component of the pair returned by \<^verbatim>\<open>validate_coordinates\<close>:
  \<^verbatim>\<open>f"X-Koordinate {x} ausserhalb Schweizer Bereich"\<close>, the same for Y, and \<^verbatim>\<open>"OK"\<close>.
  The formatted value is kept as the payload.
\<close>

datatype coord_msg = X_ausserhalb cell | Y_ausserhalb cell | OK

text \<open>
  The text of an exception, \<^verbatim>\<open>str(e)\<close>. The three messages of \<^verbatim>\<open>create_line_geometry\<close>
  keep their payload; the messages of the interpreter and of the libraries are named by
  what raised them.
\<close>

datatype message =
  Startpunkt_ungueltig coord_msg
  | Endpunkt_ungueltig coord_msg
  | Leitung_zu_kurz real
  | Le_not_supported cell
  | Int_not_convertible cell
  | Key_missing column
  | Geometry_not_numeric
  | Crs_without_geometry
  | Library_text string

datatype exn = ValueError message | TypeError message | KeyError message

fun str :: "exn \<Rightarrow> message" where
  "str (ValueError m) = m"
| "str (TypeError m) = m"
| "str (KeyError m) = m"

text \<open>Sequencing of computations that may raise: the first exception wins.\<close>

definition bind_exn :: "exn + 'a \<Rightarrow> ('a \<Rightarrow> exn + 'b) \<Rightarrow> exn + 'b" where
  "bind_exn m f = (case m of Inl e \<Rightarrow> Inl e | Inr v \<Rightarrow> f v)"

section \<open>Coordinate plausibility: \<^verbatim>\<open>validate_coordinates\<close>\<close>

text \<open>
  The chained comparison \<^verbatim>\<open>lo <= v <= hi\<close> of an integer literal with a cell value:
  false on NaN, a \<^verbatim>\<open>TypeError\<close> on a text or a date.
\<close>

fun chained_le :: "real \<Rightarrow> cell \<Rightarrow> real \<Rightarrow> exn + bool" where
  "chained_le lo (Num v) hi = Inr (lo \<le> v \<and> v \<le> hi)"
| "chained_le lo NaN hi = Inr False"
| "chained_le lo (Str s) hi = Inl (TypeError (Le_not_supported (Str s)))"
| "chained_le lo (Stamp t) hi = Inl (TypeError (Le_not_supported (Stamp t)))"

definition validate_coordinates :: "cell \<Rightarrow> cell \<Rightarrow> exn + (bool \<times> coord_msg)" where
  "validate_coordinates x y =
     bind_exn (chained_le 2480000 x 2840000) (\<lambda>x_ok.
       if \<not> x_ok then Inr (False, X_ausserhalb x)
       else bind_exn (chained_le 1070000 y 1300000) (\<lambda>y_ok.
         if \<not> y_ok then Inr (False, Y_ausserhalb y)
         else Inr (True, OK)))"

section \<open>Geometry: \<^verbatim>\<open>create_line_geometry\<close>\<close>

text \<open>
  Double precision. \<open>double x\<close> is the double nearest to the real \<open>x\<close>, ties going to the
  even significand: \<open>binade x\<close> is the exponent \<open>e\<close> with \<open>2^e \<le> |x| < 2^(e+1)\<close>, and
  \<open>x\<close> is rounded to a multiple of \<open>2^(e-52)\<close>. The exponent range is taken as unbounded
  (no overflow, no subnormal numbers), which the coordinates of the plausible range and
  their differences never leave.
\<close>

definition round_even :: "real \<Rightarrow> int" where
  "round_even t =
     (let f = \<lfloor>t\<rfloor>; d = t - of_int f
      in if d < 1/2 then f else if 1/2 < d then f + 1 else if even f then f else f + 1)"

definition binade :: "real \<Rightarrow> int" where
  "binade x = \<lfloor>log 2 \<bar>x\<bar>\<rfloor>"

definition double :: "real \<Rightarrow> real" where
  "double x =
     (if x = 0 then 0
      else of_int (round_even (x / 2 powi (binade x - 52))) * 2 powi (binade x - 52))"

definition unit_roundoff :: real where
  "unit_roundoff = 1 / 2 ^ 53"

text \<open>
  A shapely \<^verbatim>\<open>LineString\<close> is its list of vertices. The constructor takes numbers only.
  \<^verbatim>\<open>length\<close> is computed by the geometry engine in doubles: starting from 0, it adds
  \<^verbatim>\<open>sqrt(dx * dx + dy * dy)\<close> for each pair of consecutive vertices, every operation
  rounded on its own.
\<close>

datatype linestring = LineString (coords: "(real \<times> real) list")

fun num_pairs :: "(cell \<times> cell) list \<Rightarrow> (real \<times> real) list option" where
  "num_pairs [] = Some []"
| "num_pairs ((Num a, Num b) # ps) = map_option (\<lambda>vs. (a, b) # vs) (num_pairs ps)"
| "num_pairs (_ # ps) = None"

definition make_LineString :: "(cell \<times> cell) list \<Rightarrow> exn + linestring" where
  "make_LineString ps =
     (case num_pairs ps of
        Some vs \<Rightarrow> Inr (LineString vs)
      | None \<Rightarrow> Inl (TypeError Geometry_not_numeric))"

definition segment_length :: "real \<times> real \<Rightarrow> real \<times> real \<Rightarrow> real" where
  "segment_length p q =
     (let dx = double (fst q - fst p); dy = double (snd q - snd p)
      in double (sqrt (double (double (dx * dx) + double (dy * dy)))))"

fun path_length :: "real \<Rightarrow> (real \<times> real) list \<Rightarrow> real" where
  "path_length len (p # q # ps) = path_length (double (len + segment_length p q)) (q # ps)"
| "path_length len ps = len"

definition line_length :: "linestring \<Rightarrow> real" where
  "line_length g = path_length 0 (coords g)"

definition create_line_geometry :: "cell \<Rightarrow> cell \<Rightarrow> cell \<Rightarrow> cell \<Rightarrow> exn + linestring" where
  "create_line_geometry x_start y_start x_end y_end =
     bind_exn (validate_coordinates x_start y_start) (\<lambda>(valid_start, msg_start).
     bind_exn (validate_coordinates x_end y_end) (\<lambda>(valid_end, msg_end).
       if \<not> valid_start then Inl (ValueError (Startpunkt_ungueltig msg_start))
       else if \<not> valid_end then Inl (ValueError (Endpunkt_ungueltig msg_end))
       else bind_exn (make_LineString [(x_start, y_start), (x_end, y_end)]) (\<lambda>line.
         if line_length line < 0.5
         then Inl (ValueError (Leitung_zu_kurz (line_length line)))
         else Inr line)))"

section \<open>Conversions of the row loop\<close>

text \<open>
  \<^verbatim>\<open>str.strip()\<close> removes Python's white space at both ends: among the code points
  below 256 these are tab to carriage return, the four separators, the blank, the next-line
  control and the no-break space.
\<close>

definition is_space :: "char \<Rightarrow> bool" where
  "is_space c =
     (let n = (of_char c :: nat)
      in (9 \<le> n \<and> n \<le> 13) \<or> (28 \<le> n \<and> n \<le> 32) \<or> n = 133 \<or> n = 160)"

definition strip :: "string \<Rightarrow> string" where
  "strip s = rev (dropWhile is_space (rev (dropWhile is_space s)))"

definition is_digit :: "char \<Rightarrow> bool" where
  "is_digit c = (let n = (of_char c :: nat) in 48 \<le> n \<and> n \<le> 57)"

definition digit_value :: "char \<Rightarrow> nat" where
  "digit_value c = of_char c - 48"

text \<open>
  The digits of a decimal literal as \<^verbatim>\<open>int()\<close> reads them: at least one digit, single
  underscores between digits only. The flag says whether the previous character was a
  digit.
\<close>

fun py_digits :: "nat \<Rightarrow> bool \<Rightarrow> string \<Rightarrow> nat option" where
  "py_digits acc prev [] = (if prev then Some acc else None)"
| "py_digits acc prev (c # cs) =
     (if is_digit c then py_digits (10 * acc + digit_value c) True cs
      else if c = CHR ''_'' \<and> prev then py_digits acc False cs
      else None)"

text \<open>
  \<^verbatim>\<open>int()\<close> of a text uses another white space than \<^verbatim>\<open>str.strip()\<close>: a white-space
  character outside ASCII (next-line control, no-break space) first becomes a blank, then
  the white space of C (tab to carriage return and the blank, not the four separators) is
  skipped at both ends; what is left is an optional sign and the digits.
\<close>

definition c_isspace :: "char \<Rightarrow> bool" where
  "c_isspace c = (let n = (of_char c :: nat) in (9 \<le> n \<and> n \<le> 13) \<or> n = 32)"

definition ascii_space :: "char \<Rightarrow> char" where
  "ascii_space c = (let n = (of_char c :: nat) in if n = 133 \<or> n = 160 then CHR '' '' else c)"

definition int_of_string :: "string \<Rightarrow> int option" where
  "int_of_string s =
     (case rev (dropWhile c_isspace (rev (dropWhile c_isspace (map ascii_space s)))) of
        [] \<Rightarrow> None
      | c # cs \<Rightarrow>
          if c = CHR ''-'' then map_option (\<lambda>n. - int n) (py_digits 0 False cs)
          else if c = CHR ''+'' then map_option int (py_digits 0 False cs)
          else map_option int (py_digits 0 False (c # cs)))"

text \<open>\<^verbatim>\<open>int(x)\<close> of a float truncates toward zero.\<close>

definition trunc :: "real \<Rightarrow> int" where
  "trunc r = (if 0 \<le> r then \<lfloor>r\<rfloor> else \<lceil>r\<rceil>)"

fun py_int :: "cell \<Rightarrow> exn + int" where
  "py_int (Num r) = Inr (trunc r)"
| "py_int NaN = Inl (ValueError (Int_not_convertible NaN))"
| "py_int (Str s) =
     (case int_of_string s of
        Some n \<Rightarrow> Inr n
      | None \<Rightarrow> Inl (ValueError (Int_not_convertible (Str s))))"
| "py_int (Stamp t) = Inl (TypeError (Int_not_convertible (Stamp t)))"

fun notna :: "cell \<Rightarrow> bool" where
  "notna NaN = False"
| "notna _ = True"

text \<open>
  A parsed date: pandas' \<^verbatim>\<open>NaT\<close>, a calendar date (year, month, day), or an instant
  given in nanoseconds since the epoch.
\<close>

datatype timestamp = NaT | Timestamp nat nat nat | Instant int

text \<open>
  What the importer takes from its libraries and does not define itself:
  \<^verbatim>\<open>pd.to_datetime\<close>, the clock \<^verbatim>\<open>datetime.now()\<close> as read while the row at a given
  position is processed, and the way the well-known-text writer prints one coordinate.
  Every definition below takes them as the parameter \<open>L\<close>.
\<close>

record library =
  to_datetime :: "cell \<Rightarrow> exn + timestamp"
  now :: "nat \<Rightarrow> timestamp"
  fmt_coord :: "real \<Rightarrow> string"

section \<open>Rows, records and the importer\<close>

text \<open>A row as \<^verbatim>\<open>iterrows\<close> yields it: the values under the labels the frame has.\<close>

type_synonym series = "column \<Rightarrow> cell option"

definition getitem :: "series \<Rightarrow> column \<Rightarrow> exn + cell" where
  "getitem row c = (case row c of Some v \<Rightarrow> Inr v | None \<Rightarrow> Inl (KeyError (Key_missing c)))"

text \<open>The dictionary \<^verbatim>\<open>record\<close> appended to \<^verbatim>\<open>valid_records\<close>.\<close>

record segment =
  leitung_id :: cell
  material :: cell
  durchmesser :: int
  verlegedatum :: timestamp
  bemerkung :: cell
  geometry :: linestring
  import_datum :: timestamp

text \<open>The dictionary \<^verbatim>\<open>error_info\<close> appended to \<^verbatim>\<open>self.error_records\<close>.\<close>

record error_info =
  zeile :: nat
  leitung_id :: cell
  fehler :: message

datatype connection = Connection

record importer =
  db_config :: "(string \<times> string) list"
  conn :: "connection option"
  error_records :: "error_info list"

definition init :: "(string \<times> string) list \<Rightarrow> importer" where
  "init cfg = \<lparr>db_config = cfg, conn = None, error_records = []\<rparr>"

text \<open>
  The body of the \<^verbatim>\<open>try\<close> block of \<^verbatim>\<open>process_records\<close> for the row at position \<open>idx\<close>,
  in the evaluation order of Python: the four coordinates, the geometry, then the entries
  of the dictionary from top to bottom.
\<close>

definition try_row :: "library \<Rightarrow> nat \<Rightarrow> series \<Rightarrow> exn + segment" where
  "try_row L idx row =
     bind_exn (getitem row X_Start) (\<lambda>x_start.
     bind_exn (getitem row Y_Start) (\<lambda>y_start.
     bind_exn (getitem row X_End) (\<lambda>x_end.
     bind_exn (getitem row Y_End) (\<lambda>y_end.
     bind_exn (create_line_geometry x_start y_start x_end y_end) (\<lambda>geom.
     bind_exn (getitem row Leitung_ID) (\<lambda>lid.
     bind_exn (getitem row Material) (\<lambda>mat.
     bind_exn (getitem row Durchmesser_mm) (\<lambda>d_raw.
     bind_exn (py_int d_raw) (\<lambda>d.
     bind_exn (getitem row Verlegedatum) (\<lambda>v_raw.
     bind_exn (to_datetime L v_raw) (\<lambda>v.
     bind_exn (getitem row Bemerkung) (\<lambda>b.
       Inr \<lparr>segment.leitung_id = lid, material = mat, durchmesser = d,
            verlegedatum = v, bemerkung = (if notna b then b else Str []),
            geometry = geom, import_datum = now L idx\<rparr>))))))))))))"

text \<open>The \<^verbatim>\<open>except\<close> block: \<^verbatim>\<open>row.get('Leitung_ID', 'UNBEKANNT')\<close> and \<^verbatim>\<open>idx + 2\<close>.\<close>

definition row_get :: "series \<Rightarrow> column \<Rightarrow> cell \<Rightarrow> cell" where
  "row_get row c dflt = (case row c of Some v \<Rightarrow> v | None \<Rightarrow> dflt)"

definition make_error_info :: "nat \<Rightarrow> series \<Rightarrow> exn \<Rightarrow> error_info" where
  "make_error_info idx row e =
     \<lparr>zeile = idx + 2,
      error_info.leitung_id = row_get row Leitung_ID (Str ''UNBEKANNT''),
      fehler = str e\<rparr>"

text \<open>
  The loop of \<^verbatim>\<open>process_records\<close> over the pairs of \<^verbatim>\<open>iterrows\<close>, with the two lists it
  appends to as explicit state.
\<close>

fun process_rows ::
  "library \<Rightarrow> (nat \<times> series) list \<Rightarrow> segment list \<times> error_info list
     \<Rightarrow> segment list \<times> error_info list" where
  "process_rows L [] st = st"
| "process_rows L ((idx, row) # rest) (valid_records, errs) =
     (case try_row L idx row of
        Inr record \<Rightarrow> process_rows L rest (valid_records @ [record], errs)
      | Inl e \<Rightarrow> process_rows L rest (valid_records, errs @ [make_error_info idx row e]))"

text \<open>
  A data frame: its column labels, their dtypes and the rows. \<^verbatim>\<open>read_excel\<close> of pandas
  numbers the rows from 0, so the index label of a row is its position.
\<close>

datatype dtype = object | float64 | int64 | datetime64

record dataframe =
  columns :: "column list"
  dtypes :: "column \<Rightarrow> dtype"
  rows :: "(column \<Rightarrow> cell) list"

definition series_of :: "column list \<Rightarrow> (column \<Rightarrow> cell) \<Rightarrow> series" where
  "series_of cols r = (\<lambda>c. if c \<in> set cols then Some (r c) else None)"

definition iterrows :: "dataframe \<Rightarrow> (nat \<times> series) list" where
  "iterrows df = enumerate 0 (map (series_of (columns df)) (rows df))"

text \<open>
  \<^verbatim>\<open>gpd.GeoDataFrame(valid_records, crs='EPSG:2056')\<close>, the last statement of
  \<^verbatim>\<open>process_records\<close>, outside the \<^verbatim>\<open>try\<close>. A list without records gives a frame without
  geometry column, and the constructor refuses a crs for such a frame with a
  \<^verbatim>\<open>ValueError\<close>.
\<close>

definition GeoDataFrame :: "segment list \<Rightarrow> exn + segment list" where
  "GeoDataFrame records =
     (if records = [] then Inl (ValueError Crs_without_geometry) else Inr records)"

text \<open>
  \<^verbatim>\<open>process_records\<close>: the loop, then the frame. The accumulator is part of the importer
  and keeps what the loop appended also when the constructor raises.
\<close>

definition process_records ::
  "library \<Rightarrow> importer \<Rightarrow> dataframe \<Rightarrow> (exn + segment list) \<times> importer" where
  "process_records L self df =
     (let (valid_records, errs) = process_rows L (iterrows df) ([], error_records self)
      in (GeoDataFrame valid_records, self\<lparr>error_records := errs\<rparr>))"

section \<open>Reading the workbook: \<^verbatim>\<open>read_excel\<close>\<close>

text \<open>What \<^verbatim>\<open>pd.read_excel\<close> finds at a path: nothing it can read, or a frame.\<close>

datatype workbook = Unreadable | Sheet dataframe

definition required_columns :: "column list" where
  "required_columns =
     [Leitung_ID, Material, Durchmesser_mm, X_Start, Y_Start, X_End, Y_End,
      Verlegedatum, Bemerkung]"

text \<open>
  \<^verbatim>\<open>df[col].str.strip()\<close> on a column of dtype object: a text is stripped, any other value
  of the column comes back as NaN.
\<close>

fun str_strip :: "cell \<Rightarrow> cell" where
  "str_strip (Str s) = Str (strip s)"
| "str_strip _ = NaN"

definition strip_object_columns :: "dataframe \<Rightarrow> dataframe" where
  "strip_object_columns df =
     df\<lparr>rows := map (\<lambda>r c. if dtypes df c = object then str_strip (r c) else r c) (rows df)\<rparr>"

section \<open>The collaborators: files, database, report\<close>

text \<open>The parameter tuple of one \<^verbatim>\<open>cursor.execute(insert_sql, ...)\<close>.\<close>

type_synonym db_row = "cell \<times> cell \<times> int \<times> timestamp \<times> cell \<times> string \<times> timestamp"

text \<open>
  The world outside the importer: the workbooks under their paths, whether
  \<^verbatim>\<open>psycopg2.connect\<close> succeeds for a configuration, whether the server takes a
  statement and the commit, the batches committed so far, and the reports written so far
  (path and rows, in the order of writing).
\<close>

record world =
  excel_files :: "string \<Rightarrow> workbook"
  db_reachable :: "(string \<times> string) list \<Rightarrow> bool"
  db_accepts :: "db_row \<Rightarrow> bool"
  db_commits :: bool
  db_committed :: "db_row list list"
  csv_written :: "(string \<times> error_info list) list"

definition read_excel :: "world \<Rightarrow> string \<Rightarrow> dataframe option" where
  "read_excel w filepath =
     (case excel_files w filepath of
        Unreadable \<Rightarrow> None
      | Sheet df \<Rightarrow>
          (let missing = filter (\<lambda>col. col \<notin> set (columns df)) required_columns
           in if missing \<noteq> [] then None else Some (strip_object_columns df)))"

definition connect_db :: "world \<Rightarrow> importer \<Rightarrow> bool \<times> importer" where
  "connect_db w self =
     (if db_reachable w (db_config self) then (True, self\<lparr>conn := Some Connection\<rparr>)
      else (False, self))"

text \<open>
  The well-known text of a line, \<^verbatim>\<open>LINESTRING (x1 y1, x2 y2)\<close>: the vertices in their
  order, each coordinate printed by the library's number format.
\<close>

fun wkt_points :: "(real \<Rightarrow> string) \<Rightarrow> (real \<times> real) list \<Rightarrow> string" where
  "wkt_points fmt [] = []"
| "wkt_points fmt [p] = fmt (fst p) @ '' '' @ fmt (snd p)"
| "wkt_points fmt (p # q # ps) =
     fmt (fst p) @ '' '' @ fmt (snd p) @ '', '' @ wkt_points fmt (q # ps)"

definition wkt :: "(real \<Rightarrow> string) \<Rightarrow> linestring \<Rightarrow> string" where
  "wkt fmt g =
     (if coords g = [] then ''LINESTRING EMPTY''
      else ''LINESTRING ('' @ wkt_points fmt (coords g) @ '')'')"

definition insert_params :: "library \<Rightarrow> segment \<Rightarrow> db_row" where
  "insert_params L row =
     (segment.leitung_id row, material row, durchmesser row, verlegedatum row,
      bemerkung row, wkt (fmt_coord L) (geometry row), import_datum row)"

text \<open>
  \<^verbatim>\<open>write_to_database\<close>: one statement per row in order; the first statement the server
  refuses, or a refused commit, rolls everything back.
\<close>

definition write_to_database ::
  "library \<Rightarrow> world \<Rightarrow> importer \<Rightarrow> segment list \<Rightarrow> bool \<times> world" where
  "write_to_database L w self gdf =
     (case conn self of
        None \<Rightarrow> (False, w)
      | Some c \<Rightarrow>
          if list_all (\<lambda>row. db_accepts w (insert_params L row)) gdf \<and> db_commits w
          then (True, w\<lparr>db_committed := db_committed w @ [map (insert_params L) gdf]\<rparr>)
          else (False, w))"

definition save_error_report :: "world \<Rightarrow> importer \<Rightarrow> string \<Rightarrow> world" where
  "save_error_report w self output_path =
     (if error_records self = [] then w
      else w\<lparr>csv_written := csv_written w @ [(output_path, error_records self)]\<rparr>)"

text \<open>
  \<^verbatim>\<open>str.replace(old, new)\<close> for a non-empty \<open>old\<close>: every occurrence, from the left,
  without overlap. The counter is the number of characters of a matched occurrence still
  to be skipped.
\<close>

fun replace_from :: "string \<Rightarrow> string \<Rightarrow> nat \<Rightarrow> string \<Rightarrow> string" where
  "replace_from old new k [] = []"
| "replace_from old new (Suc k) (c # cs) = replace_from old new k cs"
| "replace_from old new 0 (c # cs) =
     (if take (length old) (c # cs) = old
      then new @ replace_from old new (length old - 1) cs
      else c # replace_from old new 0 cs)"

definition replace :: "string \<Rightarrow> string \<Rightarrow> string \<Rightarrow> string" where
  "replace s old new = replace_from old new 0 s"

section \<open>The run: \<^verbatim>\<open>run_import\<close>\<close>

text \<open>
  \<^verbatim>\<open>run_import\<close> calls \<^verbatim>\<open>process_records\<close> outside any \<^verbatim>\<open>try\<close>: an exception of the
  frame constructor leaves the run, which then returns nothing.
\<close>

definition run_import ::
  "library \<Rightarrow> world \<Rightarrow> importer \<Rightarrow> string \<Rightarrow> (exn + bool) \<times> importer \<times> world" where
  "run_import L w self excel_path =
     (case read_excel w excel_path of
        None \<Rightarrow> (Inr False, self, w)
      | Some df \<Rightarrow>
          (let (r, self1) = process_records L self df in
           case r of
             Inl e \<Rightarrow> (Inl e, self1, w)
           | Inr gdf \<Rightarrow>
               if gdf = [] then (Inr False, self1, w)
               else
                 (let (connected, self2) = connect_db w self1 in
                  if \<not> connected then (Inr False, self2, w)
                  else
                    (let (success, w1) = write_to_database L w self2 gdf;
                         error_file = replace excel_path ''.xlsx'' ''_fehler.csv'';
                         w2 = save_error_report w1 self2 error_file
                     in (Inr success, self2, w2)))))"

section \<open>Reading well-known text back\<close>

text \<open>
  Modelled from the spec: the reader of the canonical text \<^verbatim>\<open>LINESTRING (x1 y1, x2 y2)\<close>.
  The source only writes this text; the store that parses it is not part of the
  repository. The reader of one coordinate is a parameter.
\<close>

fun split_on :: "char \<Rightarrow> string \<Rightarrow> string list" where
  "split_on d [] = [[]]"
| "split_on d (c # cs) =
     (if c = d then [] # split_on d cs
      else (case split_on d cs of
              [] \<Rightarrow> [[c]]
            | w # ws \<Rightarrow> (c # w) # ws))"

definition read_point :: "(string \<Rightarrow> real option) \<Rightarrow> string \<Rightarrow> (real \<times> real) option" where
  "read_point rd s =
     (case split_on CHR '' '' (dropWhile (\<lambda>c. c = CHR '' '') s) of
        [a, b] \<Rightarrow>
          (case (rd a, rd b) of
             (Some x, Some y) \<Rightarrow> Some (x, y)
           | _ \<Rightarrow> None)
      | _ \<Rightarrow> None)"

definition read_wkt :: "(string \<Rightarrow> real option) \<Rightarrow> string \<Rightarrow> (real \<times> real) list option" where
  "read_wkt rd s =
     (if take 12 s = ''LINESTRING ('' \<and> 12 < length s \<and> last s = CHR '')''
      then those (map (read_point rd) (split_on CHR '','' (butlast (drop 12 s))))
      else None)"

text \<open>
  A coordinate survives the text when the reader inverts the number format on it and the
  printed number is not empty and holds neither of the two separators.
\<close>

definition readable_coord :: "(real \<Rightarrow> string) \<Rightarrow> (string \<Rightarrow> real option) \<Rightarrow> real \<Rightarrow> bool" where
  "readable_coord fmt rd c =
     (rd (fmt c) = Some c \<and> fmt c \<noteq> [] \<and> CHR '' '' \<notin> set (fmt c) \<and> CHR '','' \<notin> set (fmt c))"

section \<open>Outcome of one row\<close>

text \<open>
  The two things the loop can append for the pair \<open>(idx, row)\<close>: the record of an accepted
  row, the error entry of a rejected one.
\<close>

definition accepted :: "library \<Rightarrow> nat \<times> series \<Rightarrow> segment option" where
  "accepted L p = (case try_row L (fst p) (snd p) of Inr s \<Rightarrow> Some s | Inl e \<Rightarrow> None)"

definition rejected :: "library \<Rightarrow> nat \<times> series \<Rightarrow> error_info option" where
  "rejected L p =
     (case try_row L (fst p) (snd p) of
        Inr s \<Rightarrow> None
      | Inl e \<Rightarrow> Some (make_error_info (fst p) (snd p) e))"

section \<open>A sample library\<close>

text \<open>
  An instance of the library parameter, to run the definitions on concrete rows. Its date
  conversion reads the form \<^verbatim>\<open>YYYY-MM-DD\<close> that \<^verbatim>\<open>dummy_data_generator.py\<close> writes
  (\<^verbatim>\<open>strftime('%Y-%m-%d')\<close>) and refuses any other text, turns an empty cell into
  \<^verbatim>\<open>NaT\<close> and takes a number or a date cell as nanoseconds since the epoch; its number
  format prints the integer part in decimal.
\<close>

definition plain_digits :: "string \<Rightarrow> nat option" where
  "plain_digits s = (if list_all is_digit s then py_digits 0 False s else None)"

definition days_in_month :: "nat \<Rightarrow> nat \<Rightarrow> nat" where
  "days_in_month y m =
     (if m = 2 then (if (y mod 4 = 0 \<and> y mod 100 \<noteq> 0) \<or> y mod 400 = 0 then 29 else 28)
      else if m = 4 \<or> m = 6 \<or> m = 9 \<or> m = 11 then 30
      else 31)"

definition iso_date :: "string \<Rightarrow> timestamp option" where
  "iso_date s =
     (if length s = 10 \<and> s ! 4 = CHR ''-'' \<and> s ! 7 = CHR ''-'' then
        (case (plain_digits (take 4 s), plain_digits (take 2 (drop 5 s)),
               plain_digits (drop 8 s)) of
           (Some y, Some m, Some d) \<Rightarrow>
             if 1 \<le> y \<and> 1 \<le> m \<and> m \<le> 12 \<and> 1 \<le> d \<and> d \<le> days_in_month y m
             then Some (Timestamp y m d) else None
         | _ \<Rightarrow> None)
      else None)"

fun sample_to_datetime :: "cell \<Rightarrow> exn + timestamp" where
  "sample_to_datetime (Str s) =
     (case iso_date s of
        Some t \<Rightarrow> Inr t
      | None \<Rightarrow> Inl (ValueError (Library_text s)))"
| "sample_to_datetime NaN = Inr NaT"
| "sample_to_datetime (Num r) = Inr (Instant (trunc r))"
| "sample_to_datetime (Stamp t) = Inr (Instant t)"

fun digits_of :: "nat \<Rightarrow> string" where
  "digits_of n =
     (if n < 10 then [''0123456789'' ! n]
      else digits_of (n div 10) @ [''0123456789'' ! (n mod 10)])"

definition fmt_integer :: "real \<Rightarrow> string" where
  "fmt_integer r =
     (if r < 0 then CHR ''-'' # digits_of (nat (- \<lceil>r\<rceil>)) else digits_of (nat \<lfloor>r\<rfloor>))"

definition read_integer :: "string \<Rightarrow> real option" where
  "read_integer s = map_option real_of_int (int_of_string s)"

definition sample_library :: library where
  "sample_library =
     \<lparr>to_datetime = sample_to_datetime, now = (\<lambda>i. Timestamp 2024 1 1),
      fmt_coord = fmt_integer\<rparr>"

section \<open>Sample data\<close>

text \<open>
  The row \<^verbatim>\<open>L_SPECIAL_01\<close> of \<^verbatim>\<open>dummy_data_generator.py\<close> (with an empty remark), and a
  frame with the nine required columns in the dtypes pandas infers for such a sheet.
  The faulty rows of the generator (\<^verbatim>\<open>L_ERR01\<close> to \<^verbatim>\<open>L_ERR04\<close>) are updates of it.
\<close>

definition row_A :: "column \<Rightarrow> cell" where
  "row_A c =
     (case c of
        Leitung_ID \<Rightarrow> Str ''L_SPECIAL_01''
      | Material \<Rightarrow> Str ''PE''
      | Durchmesser_mm \<Rightarrow> Num 800
      | X_Start \<Rightarrow> Num 2683000
      | Y_Start \<Rightarrow> Num 1248000
      | X_End \<Rightarrow> Num 2683100
      | Y_End \<Rightarrow> Num 1248100
      | Verlegedatum \<Rightarrow> Str ''2020-01-15''
      | Bemerkung \<Rightarrow> NaN)"

definition sample_dtypes :: "column \<Rightarrow> dtype" where
  "sample_dtypes c =
     (case c of
        Leitung_ID \<Rightarrow> object
      | Material \<Rightarrow> object
      | Durchmesser_mm \<Rightarrow> int64
      | Verlegedatum \<Rightarrow> object
      | Bemerkung \<Rightarrow> object
      | _ \<Rightarrow> float64)"

definition frame :: "(column \<Rightarrow> cell) list \<Rightarrow> dataframe" where
  "frame rs = \<lparr>columns = required_columns, dtypes = sample_dtypes, rows = rs\<rparr>"

definition full :: "(column \<Rightarrow> cell) \<Rightarrow> series" where
  "full r = series_of required_columns r"

text \<open>
  A world with one workbook under \<^verbatim>\<open>leitungen.xlsx\<close>, a reachable database that takes
  every statement, and nothing written yet.
\<close>

definition sample_world :: "dataframe \<Rightarrow> world" where
  "sample_world df =
     \<lparr>excel_files = (\<lambda>p. if p = ''leitungen.xlsx'' then Sheet df else Unreadable),
      db_reachable = (\<lambda>cfg. True), db_accepts = (\<lambda>r. True), db_commits = True,
      db_committed = [], csv_written = []\<rparr>"

section \<open>Properties of the plausibility check\<close>

lemma validate_ok_iff:
  "validate_coordinates cx cy = Inr (True, OK) \<longleftrightarrow>
     (\<exists>x y. cx = Num x \<and> cy = Num y \<and> 2480000 \<le> x \<and> x \<le> 2840000
        \<and> 1070000 \<le> y \<and> y \<le> 1300000)"
  by (cases cx; cases cy) (auto simp: validate_coordinates_def bind_exn_def)

lemma validate_True_OK:
  "validate_coordinates cx cy = Inr (True, m) \<Longrightarrow> m = OK"
  by (cases cx; cases cy) (auto simp: validate_coordinates_def bind_exn_def split: if_splits)

text \<open>
  C3. The check passes exactly on a pair of numbers with x in [2480000, 2840000] and y in
  [1070000, 1300000], bounds included. A number x outside its range fails with the message
  about X, whatever y is; with x inside, a number y outside its range fails with the
  message about Y. The NaN of an empty cell fails the same way: as x with the message
  about X, as y (x inside) with the message about Y.
\<close>

theorem validate_coordinates_envelope:
  "(validate_coordinates cx cy = Inr (True, OK) \<longleftrightarrow>
      (\<exists>x y. cx = Num x \<and> cy = Num y \<and> 2480000 \<le> x \<and> x \<le> 2840000
         \<and> 1070000 \<le> y \<and> y \<le> 1300000))
   \<and> (x < 2480000 \<or> 2840000 < x \<longrightarrow>
        validate_coordinates (Num x) cy = Inr (False, X_ausserhalb (Num x)))
   \<and> (2480000 \<le> x' \<and> x' \<le> 2840000 \<and> (y' < 1070000 \<or> 1300000 < y') \<longrightarrow>
        validate_coordinates (Num x') (Num y') = Inr (False, Y_ausserhalb (Num y')))
   \<and> validate_coordinates NaN cy = Inr (False, X_ausserhalb NaN)
   \<and> (2480000 \<le> x' \<and> x' \<le> 2840000 \<longrightarrow>
        validate_coordinates (Num x') NaN = Inr (False, Y_ausserhalb NaN))"
proof -
  have 1: "validate_coordinates cx cy = Inr (True, OK) \<longleftrightarrow>
      (\<exists>x y. cx = Num x \<and> cy = Num y \<and> 2480000 \<le> x \<and> x \<le> 2840000
         \<and> 1070000 \<le> y \<and> y \<le> 1300000)"
    by (rule validate_ok_iff)
  have 2: "x < 2480000 \<or> 2840000 < x \<longrightarrow>
        validate_coordinates (Num x) cy = Inr (False, X_ausserhalb (Num x))"
    by (auto simp: validate_coordinates_def bind_exn_def)
  have 3: "2480000 \<le> x' \<and> x' \<le> 2840000 \<and> (y' < 1070000 \<or> 1300000 < y') \<longrightarrow>
        validate_coordinates (Num x') (Num y') = Inr (False, Y_ausserhalb (Num y'))"
    by (auto simp: validate_coordinates_def bind_exn_def)
  have 4: "validate_coordinates NaN cy = Inr (False, X_ausserhalb NaN)"
    by (simp add: validate_coordinates_def bind_exn_def)
  have 5: "2480000 \<le> x' \<and> x' \<le> 2840000 \<longrightarrow>
        validate_coordinates (Num x') NaN = Inr (False, Y_ausserhalb NaN)"
    by (simp add: validate_coordinates_def bind_exn_def)
  from 1 2 3 4 5 show ?thesis by blast
qed

theorem validate_coordinates_envelope_witness:
  "validate_coordinates (Num 2683000) (Num 1248000) = Inr (True, OK)
   \<and> validate_coordinates (Num 1000000) (Num 1248000) = Inr (False, X_ausserhalb (Num 1000000))
   \<and> validate_coordinates (Num 2683000) (Num 5) = Inr (False, Y_ausserhalb (Num 5))
   \<and> validate_coordinates NaN (Num 1248000) = Inr (False, X_ausserhalb NaN)
   \<and> validate_coordinates (Num 2683000) NaN = Inr (False, Y_ausserhalb NaN)"
  using validate_coordinates_envelope [of "Num 2683000" "Num 1248000" 1000000 2683000 5]
  by simp

section \<open>Properties of double rounding\<close>

lemma round_even_err: "\<bar>of_int (round_even t) - t\<bar> \<le> 1/2"
  unfolding round_even_def Let_def by (auto; linarith)

lemma powr_powi: "(2::real) powr (real_of_int e + 1) = 2 powi (e + 1)"
  using powr_real_of_int' [of 2 "e + 1"] by simp

lemma binade_bounds:
  assumes "x \<noteq> 0"
  shows "2 powi (binade x) \<le> \<bar>x\<bar>" and "\<bar>x\<bar> < 2 powi (binade x + 1)"
proof -
  have p: "0 < \<bar>x\<bar>" using assms by simp
  have "2 powr (binade x) \<le> \<bar>x\<bar> \<and> \<bar>x\<bar> < 2 powr (binade x + 1)"
    using floor_log_eq_powr_iff [OF p, of 2 "binade x"] by (simp add: binade_def)
  then show "2 powi (binade x) \<le> \<bar>x\<bar>" and "\<bar>x\<bar> < 2 powi (binade x + 1)"
    by (simp_all add: powr_real_of_int' powr_powi)
qed

lemma binade_eq:
  assumes "2 powi e \<le> \<bar>x\<bar>" and "\<bar>x\<bar> < 2 powi (e + 1)"
  shows "binade x = e"
proof -
  have "(0::real) < 2 powi e" by simp
  with assms(1) have p: "0 < \<bar>x\<bar>" by linarith
  have "\<lfloor>log 2 \<bar>x\<bar>\<rfloor> = e \<longleftrightarrow> 2 powr e \<le> \<bar>x\<bar> \<and> \<bar>x\<bar> < 2 powr (e + 1)"
    using floor_log_eq_powr_iff [OF p, of 2 e] by simp
  then show ?thesis
    unfolding binade_def using assms by (simp add: powr_real_of_int' powr_powi)
qed

text \<open>The value of \<open>double\<close> once the binade is known; this is how a numeral is evaluated.\<close>

lemma double_eval:
  assumes "2 powi e \<le> \<bar>x\<bar>" and "\<bar>x\<bar> < 2 powi (e + 1)"
  shows "double x = of_int (round_even (x / 2 powi (e - 52))) * 2 powi (e - 52)"
proof -
  have "(0::real) < 2 powi e" by simp
  with assms(1) have "0 < \<bar>x\<bar>" by linarith
  then have "x \<noteq> 0" by simp
  then show ?thesis
    by (simp add: double_def binade_eq [OF assms])
qed

text \<open>Rounding changes a number by at most the unit roundoff, relatively.\<close>

lemma double_err: "\<bar>double x - x\<bar> \<le> unit_roundoff * \<bar>x\<bar>"
proof (cases "x = 0")
  case True
  then show ?thesis by (simp add: double_def)
next
  case False
  let ?q = "(2::real) powi (binade x - 52)"
  have q: "0 < ?q" by simp
  have "double x - x = (of_int (round_even (x / ?q)) - x / ?q) * ?q"
    using False q by (simp add: double_def field_simps)
  then have "\<bar>double x - x\<bar> = \<bar>of_int (round_even (x / ?q)) - x / ?q\<bar> * ?q"
    using q by (simp add: abs_mult)
  also have "\<dots> \<le> 1/2 * ?q"
    using round_even_err [of "x / ?q"] q by (intro mult_right_mono) simp_all
  also have "1/2 * ?q = unit_roundoff * 2 powi (binade x)"
    by (simp add: power_int_diff unit_roundoff_def)
  also have "\<dots> \<le> unit_roundoff * \<bar>x\<bar>"
    using binade_bounds(1) [OF False] by (intro mult_left_mono) (simp_all add: unit_roundoff_def)
  finally show ?thesis .
qed

lemma lo_nonneg: "0 \<le> 1 - unit_roundoff" and hi_nonneg: "0 \<le> 1 + unit_roundoff"
  by (simp_all add: unit_roundoff_def)

lemma double_abs_bounds:
  "(1 - unit_roundoff) * \<bar>x\<bar> \<le> \<bar>double x\<bar>" "\<bar>double x\<bar> \<le> (1 + unit_roundoff) * \<bar>x\<bar>"
proof -
  have e: "\<bar>double x - x\<bar> \<le> unit_roundoff * \<bar>x\<bar>"
    by (rule double_err)
  have "\<bar>x\<bar> - \<bar>double x - x\<bar> \<le> \<bar>double x\<bar>" by linarith
  with e show "(1 - unit_roundoff) * \<bar>x\<bar> \<le> \<bar>double x\<bar>"
    by (simp add: algebra_simps)
  have "\<bar>double x\<bar> \<le> \<bar>x\<bar> + \<bar>double x - x\<bar>" by linarith
  with e show "\<bar>double x\<bar> \<le> (1 + unit_roundoff) * \<bar>x\<bar>"
    by (simp add: algebra_simps)
qed

lemma double_pos_bounds:
  assumes "0 \<le> x"
  shows "(1 - unit_roundoff) * x \<le> double x" and "double x \<le> (1 + unit_roundoff) * x"
proof -
  have e: "\<bar>double x - x\<bar> \<le> unit_roundoff * x"
    using double_err [of x] assms by simp
  then have "- (unit_roundoff * x) \<le> double x - x" and "double x - x \<le> unit_roundoff * x"
    by linarith+
  then show "(1 - unit_roundoff) * x \<le> double x" and "double x \<le> (1 + unit_roundoff) * x"
    by (simp_all add: algebra_simps)
qed

lemma double_nonneg: "0 \<le> x \<Longrightarrow> 0 \<le> double x"
proof -
  assume x: "0 \<le> x"
  have "0 \<le> (1 - unit_roundoff) * x" using x lo_nonneg by simp
  with double_pos_bounds(1) [OF x] show ?thesis by linarith
qed

lemma double_square_bounds:
  "(1 - unit_roundoff) ^ 3 * t\<^sup>2 \<le> double (double t * double t)"
  "double (double t * double t) \<le> (1 + unit_roundoff) ^ 3 * t\<^sup>2"
proof -
  let ?lo = "1 - unit_roundoff" and ?hi = "1 + unit_roundoff"
  have lo: "0 \<le> ?lo" by (rule lo_nonneg)
  have sq: "double t * double t = \<bar>double t\<bar>\<^sup>2" by (simp add: power2_eq_square)
  have "(?lo * \<bar>t\<bar>)\<^sup>2 \<le> \<bar>double t\<bar>\<^sup>2"
    using double_abs_bounds(1) [of t] lo by (intro power_mono) simp_all
  then have l: "?lo\<^sup>2 * t\<^sup>2 \<le> double t * double t"
    by (simp add: sq power_mult_distrib)
  have "\<bar>double t\<bar>\<^sup>2 \<le> (?hi * \<bar>t\<bar>)\<^sup>2"
    using double_abs_bounds(2) [of t] by (intro power_mono) simp_all
  then have h: "double t * double t \<le> ?hi\<^sup>2 * t\<^sup>2"
    by (simp add: sq power_mult_distrib)
  have n: "0 \<le> double t * double t" by simp
  have "?lo * (?lo\<^sup>2 * t\<^sup>2) \<le> ?lo * (double t * double t)"
    using l lo by (rule mult_left_mono)
  also have "\<dots> \<le> double (double t * double t)"
    by (rule double_pos_bounds(1) [OF n])
  finally show "?lo ^ 3 * t\<^sup>2 \<le> double (double t * double t)"
    by (simp add: power3_eq_cube power2_eq_square algebra_simps)
  have "double (double t * double t) \<le> ?hi * (double t * double t)"
    by (rule double_pos_bounds(2) [OF n])
  also have "\<dots> \<le> ?hi * (?hi\<^sup>2 * t\<^sup>2)"
    using h by (intro mult_left_mono hi_nonneg) simp_all
  finally show "double (double t * double t) \<le> ?hi ^ 3 * t\<^sup>2"
    by (simp add: power3_eq_cube power2_eq_square algebra_simps)
qed

section \<open>Properties of the computed length\<close>

lemma segment_length_bounds:
  fixes x1 y1 x2 y2 :: real
  defines "d \<equiv> sqrt ((x2 - x1)\<^sup>2 + (y2 - y1)\<^sup>2)"
  shows "(1 - unit_roundoff) ^ 3 * d \<le> segment_length (x1, y1) (x2, y2)"
    and "segment_length (x1, y1) (x2, y2) \<le> (1 + unit_roundoff) ^ 3 * d"
proof -
  let ?lo = "1 - unit_roundoff" and ?hi = "1 + unit_roundoff"
  let ?a = "double (double (x2 - x1) * double (x2 - x1))"
  let ?b = "double (double (y2 - y1) * double (y2 - y1))"
  let ?s = "double (?a + ?b)"
  have lo: "0 \<le> ?lo" and hi: "0 \<le> ?hi" by (rule lo_nonneg, rule hi_nonneg)
  have d0: "0 \<le> d" by (simp add: d_def)
  have d2: "d\<^sup>2 = (x2 - x1)\<^sup>2 + (y2 - y1)\<^sup>2" by (simp add: d_def)
  have a0: "0 \<le> ?a" and b0: "0 \<le> ?b" by (simp_all add: double_nonneg)
  then have ab0: "0 \<le> ?a + ?b" by simp
  have abl: "?lo ^ 3 * d\<^sup>2 \<le> ?a + ?b"
    using double_square_bounds(1) [of "x2 - x1"] double_square_bounds(1) [of "y2 - y1"]
    unfolding d2 by (simp add: algebra_simps)
  have abh: "?a + ?b \<le> ?hi ^ 3 * d\<^sup>2"
    using double_square_bounds(2) [of "x2 - x1"] double_square_bounds(2) [of "y2 - y1"]
    unfolding d2 by (simp add: algebra_simps)
  have "?lo * (?lo ^ 3 * d\<^sup>2) \<le> ?lo * (?a + ?b)"
    using abl lo by (rule mult_left_mono)
  also have "\<dots> \<le> ?s" by (rule double_pos_bounds(1) [OF ab0])
  finally have sl: "(?lo\<^sup>2 * d)\<^sup>2 \<le> ?s"
    by (simp add: power_mult_distrib power2_eq_square power3_eq_cube algebra_simps)
  have "?s \<le> ?hi * (?a + ?b)" by (rule double_pos_bounds(2) [OF ab0])
  also have "\<dots> \<le> ?hi * (?hi ^ 3 * d\<^sup>2)"
    using abh by (intro mult_left_mono hi_nonneg) simp_all
  finally have sh: "?s \<le> (?hi\<^sup>2 * d)\<^sup>2"
    by (simp add: power_mult_distrib power2_eq_square power3_eq_cube algebra_simps)
  have rl: "?lo\<^sup>2 * d \<le> sqrt ?s"
    using sl by (rule real_le_rsqrt)
  have "0 \<le> ?hi\<^sup>2 * d" using d0 by simp
  then have rh: "sqrt ?s \<le> ?hi\<^sup>2 * d"
    using sh by (intro real_le_lsqrt) (simp_all add: double_nonneg ab0)
  have r0: "0 \<le> sqrt ?s" by (simp add: double_nonneg ab0)
  have seg: "segment_length (x1, y1) (x2, y2) = double (sqrt ?s)"
    by (simp add: segment_length_def Let_def)
  have "?lo * (?lo\<^sup>2 * d) \<le> ?lo * sqrt ?s"
    using rl lo by (rule mult_left_mono)
  also have "\<dots> \<le> double (sqrt ?s)" by (rule double_pos_bounds(1) [OF r0])
  finally show "?lo ^ 3 * d \<le> segment_length (x1, y1) (x2, y2)"
    unfolding seg by (simp add: power2_eq_square power3_eq_cube algebra_simps)
  have "double (sqrt ?s) \<le> ?hi * sqrt ?s" by (rule double_pos_bounds(2) [OF r0])
  also have "\<dots> \<le> ?hi * (?hi\<^sup>2 * d)"
    using rh by (intro mult_left_mono hi_nonneg) simp_all
  finally show "segment_length (x1, y1) (x2, y2) \<le> ?hi ^ 3 * d"
    unfolding seg by (simp add: power2_eq_square power3_eq_cube algebra_simps)
qed

lemma segment_length_nonneg: "0 \<le> segment_length p q"
  by (simp add: segment_length_def Let_def double_nonneg)

lemma line_length_two:
  "line_length (LineString [p, q]) = double (segment_length p q)"
  by (simp add: line_length_def)

text \<open>
  The computed length of a two-vertex line against the Euclidean distance of its
  vertices: four rounded operations lie between them.
\<close>

lemma line_length_bounds:
  fixes x1 y1 x2 y2 :: real
  defines "d \<equiv> sqrt ((x2 - x1)\<^sup>2 + (y2 - y1)\<^sup>2)"
  shows "(1 - unit_roundoff) ^ 4 * d \<le> line_length (LineString [(x1, y1), (x2, y2)])"
    and "line_length (LineString [(x1, y1), (x2, y2)]) \<le> (1 + unit_roundoff) ^ 4 * d"
proof -
  let ?lo = "1 - unit_roundoff" and ?hi = "1 + unit_roundoff"
  let ?v = "segment_length (x1, y1) (x2, y2)"
  have lo: "0 \<le> ?lo" by (rule lo_nonneg)
  have v0: "0 \<le> ?v" by (rule segment_length_nonneg)
  have "?lo * (?lo ^ 3 * d) \<le> ?lo * ?v"
    using segment_length_bounds(1) [where ?x1.0 = x1 and ?x2.0 = x2 and ?y1.0 = y1 and ?y2.0 = y2]
      lo
    unfolding d_def by (rule mult_left_mono)
  also have "\<dots> \<le> double ?v" by (rule double_pos_bounds(1) [OF v0])
  finally show "?lo ^ 4 * d \<le> line_length (LineString [(x1, y1), (x2, y2)])"
    unfolding line_length_two by (simp add: power4_eq_xxxx power3_eq_cube algebra_simps)
  have "double ?v \<le> ?hi * ?v" by (rule double_pos_bounds(2) [OF v0])
  also have "\<dots> \<le> ?hi * (?hi ^ 3 * d)"
    using segment_length_bounds(2) [where ?x1.0 = x1 and ?x2.0 = x2 and ?y1.0 = y1 and ?y2.0 = y2]
    unfolding d_def
    by (intro mult_left_mono hi_nonneg) simp_all
  finally show "line_length (LineString [(x1, y1), (x2, y2)]) \<le> ?hi ^ 4 * d"
    unfolding line_length_two by (simp add: power4_eq_xxxx power3_eq_cube algebra_simps)
qed

lemma line_length_accept:
  assumes "1/2 + 1 / 2 ^ 51 \<le> sqrt ((x2 - x1)\<^sup>2 + (y2 - y1)\<^sup>2)"
  shows "1/2 \<le> line_length (LineString [(x1, y1), (x2, y2)])"
proof -
  have "(1/2::real) \<le> (1 - unit_roundoff) ^ 4 * (1/2 + 1 / 2 ^ 51)"
    by (simp add: unit_roundoff_def power4_eq_xxxx)
  also have "\<dots> \<le> (1 - unit_roundoff) ^ 4 * sqrt ((x2 - x1)\<^sup>2 + (y2 - y1)\<^sup>2)"
    using assms by (intro mult_left_mono zero_le_power lo_nonneg) simp_all
  also have "\<dots> \<le> line_length (LineString [(x1, y1), (x2, y2)])"
    by (rule line_length_bounds(1))
  finally show ?thesis .
qed

lemma line_length_reject:
  assumes "sqrt ((x2 - x1)\<^sup>2 + (y2 - y1)\<^sup>2) \<le> 1/2 - 1 / 2 ^ 51"
  shows "line_length (LineString [(x1, y1), (x2, y2)]) < 1/2"
proof -
  have "line_length (LineString [(x1, y1), (x2, y2)])
      \<le> (1 + unit_roundoff) ^ 4 * sqrt ((x2 - x1)\<^sup>2 + (y2 - y1)\<^sup>2)"
    by (rule line_length_bounds(2))
  also have "\<dots> \<le> (1 + unit_roundoff) ^ 4 * (1/2 - 1 / 2 ^ 51)"
    using assms by (intro mult_left_mono zero_le_power hi_nonneg) simp_all
  also have "\<dots> < (1/2::real)"
    by (simp add: unit_roundoff_def power4_eq_xxxx)
  finally show ?thesis .
qed

lemma line_length_same: "line_length (LineString [(x, y), (x, y)]) = 0"
  by (simp add: line_length_def segment_length_def double_def)

section \<open>Properties of the geometry construction\<close>

lemma create_valid:
  assumes "validate_coordinates (Num x1) (Num y1) = Inr (True, OK)"
    and "validate_coordinates (Num x2) (Num y2) = Inr (True, OK)"
  shows "create_line_geometry (Num x1) (Num y1) (Num x2) (Num y2) =
     (if line_length (LineString [(x1, y1), (x2, y2)]) < 1/2
      then Inl (ValueError (Leitung_zu_kurz (line_length (LineString [(x1, y1), (x2, y2)]))))
      else Inr (LineString [(x1, y1), (x2, y2)]))"
  using assms
  by (simp add: create_line_geometry_def bind_exn_def make_LineString_def)

lemma create_Inr_valid:
  assumes "create_line_geometry xs ys xe ye = Inr g"
  shows "validate_coordinates xs ys = Inr (True, OK) \<and> validate_coordinates xe ye = Inr (True, OK)"
proof -
  from assms obtain vs ms ve me where
    s: "validate_coordinates xs ys = Inr (vs, ms)" and e: "validate_coordinates xe ye = Inr (ve, me)"
    by (auto simp: create_line_geometry_def bind_exn_def split: sum.splits)
  from assms s e have "vs" "ve"
    by (auto simp: create_line_geometry_def bind_exn_def split: if_splits)
  with s e show ?thesis by (auto dest: validate_True_OK)
qed

text \<open>
  C4, as amended. For two endpoints that pass the plausibility check, the construction
  succeeds exactly when the length of the line as computed in double precision is at least
  0.5, and then returns the line from start to end; otherwise it raises the error about the
  line being too short, which carries that length. The computed length lies within four
  roundings of the Euclidean distance of the two points: the construction succeeds
  whenever the distance is at least \<open>0.5 + 2^-51\<close> and fails whenever it is at most
  \<open>0.5 - 2^-51\<close>; identical points have length 0 and fail.
\<close>

theorem create_line_geometry_min_length:
  assumes "validate_coordinates xs ys = Inr (True, OK)"
    and "validate_coordinates xe ye = Inr (True, OK)"
  shows "\<exists>x1 y1 x2 y2. xs = Num x1 \<and> ys = Num y1 \<and> xe = Num x2 \<and> ye = Num y2
     \<and> ((\<exists>g. create_line_geometry xs ys xe ye = Inr g) \<longleftrightarrow>
          1/2 \<le> line_length (LineString [(x1, y1), (x2, y2)]))
     \<and> create_line_geometry xs ys xe ye =
         (if line_length (LineString [(x1, y1), (x2, y2)]) < 1/2
          then Inl (ValueError (Leitung_zu_kurz (line_length (LineString [(x1, y1), (x2, y2)]))))
          else Inr (LineString [(x1, y1), (x2, y2)]))
     \<and> (1 - unit_roundoff) ^ 4 * sqrt ((x2 - x1)\<^sup>2 + (y2 - y1)\<^sup>2)
          \<le> line_length (LineString [(x1, y1), (x2, y2)])
     \<and> line_length (LineString [(x1, y1), (x2, y2)])
          \<le> (1 + unit_roundoff) ^ 4 * sqrt ((x2 - x1)\<^sup>2 + (y2 - y1)\<^sup>2)
     \<and> (if 1/2 + 1 / 2 ^ 51 \<le> sqrt ((x2 - x1)\<^sup>2 + (y2 - y1)\<^sup>2)
         then create_line_geometry xs ys xe ye = Inr (LineString [(x1, y1), (x2, y2)])
         else True)
     \<and> (if sqrt ((x2 - x1)\<^sup>2 + (y2 - y1)\<^sup>2) \<le> 1/2 - 1 / 2 ^ 51
         then create_line_geometry xs ys xe ye =
           Inl (ValueError (Leitung_zu_kurz (line_length (LineString [(x1, y1), (x2, y2)]))))
         else True)
     \<and> (if x1 = x2 \<and> y1 = y2
         then create_line_geometry xs ys xe ye = Inl (ValueError (Leitung_zu_kurz 0))
         else True)"
proof -
  from assms(1) obtain x1 y1 where s: "xs = Num x1" "ys = Num y1"
    by (auto simp: validate_ok_iff)
  from assms(2) obtain x2 y2 where e: "xe = Num x2" "ye = Num y2"
    by (auto simp: validate_ok_iff)
  let ?g = "LineString [(x1, y1), (x2, y2)]"
  let ?d = "sqrt ((x2 - x1)\<^sup>2 + (y2 - y1)\<^sup>2)"
  have c: "create_line_geometry xs ys xe ye =
         (if line_length ?g < 1/2 then Inl (ValueError (Leitung_zu_kurz (line_length ?g)))
          else Inr ?g)"
    using assms unfolding s e by (rule create_valid)
  have i: "(\<exists>g. create_line_geometry xs ys xe ye = Inr g) \<longleftrightarrow> 1/2 \<le> line_length ?g"
    unfolding c by auto
  have l: "(1 - unit_roundoff) ^ 4 * ?d \<le> line_length ?g"
    by (rule line_length_bounds(1))
  have h: "line_length ?g \<le> (1 + unit_roundoff) ^ 4 * ?d"
    by (rule line_length_bounds(2))
  have a: "if 1/2 + 1 / 2 ^ 51 \<le> ?d then create_line_geometry xs ys xe ye = Inr ?g else True"
    unfolding c using line_length_accept [of x2 x1 y2 y1] by auto
  have r: "if ?d \<le> 1/2 - 1 / 2 ^ 51
         then create_line_geometry xs ys xe ye
           = Inl (ValueError (Leitung_zu_kurz (line_length ?g)))
         else True"
    unfolding c using line_length_reject [of x2 x1 y2 y1] by auto
  have z: "if x1 = x2 \<and> y1 = y2
         then create_line_geometry xs ys xe ye = Inl (ValueError (Leitung_zu_kurz 0))
         else True"
    unfolding c by (simp add: line_length_same)
  from s e c i l h a r z show ?thesis by blast
qed

lemma sqrt_A:
  "1/2 + 1 / 2 ^ 51 \<le> sqrt ((2683100 - 2683000)\<^sup>2 + (1248100 - 1248000)\<^sup>2 :: real)"
  by (rule real_le_rsqrt) (simp add: power2_eq_square)

lemma length_A: "1/2 \<le> line_length (LineString [(2683000, 1248000), (2683100, 1248100)])"
  using sqrt_A by (rule line_length_accept)

theorem create_line_geometry_min_length_witness:
  "create_line_geometry (Num 2683000) (Num 1248000) (Num 2683100) (Num 1248100) =
     Inr (LineString [(2683000, 1248000), (2683100, 1248100)])
   \<and> create_line_geometry (Num 2683000) (Num 1248000) (Num 2683000) (Num 1248000) =
     Inl (ValueError (Leitung_zu_kurz 0))"
proof -
  have v: "validate_coordinates (Num 2683000) (Num 1248000) = Inr (True, OK)"
    "validate_coordinates (Num 2683100) (Num 1248100) = Inr (True, OK)"
    by (simp_all add: validate_ok_iff)
  from create_line_geometry_min_length [OF v(1) v(2)] sqrt_A
  have 1: "create_line_geometry (Num 2683000) (Num 1248000) (Num 2683100) (Num 1248100) =
     Inr (LineString [(2683000, 1248000), (2683100, 1248100)])"
    by auto
  from create_line_geometry_min_length [OF v(1) v(1)]
  have 2: "create_line_geometry (Num 2683000) (Num 1248000) (Num 2683000) (Num 1248000) =
     Inl (ValueError (Leitung_zu_kurz 0))"
    by auto
  from 1 2 show ?thesis by simp
qed

text \<open>
  C4 as stated fails at the boundary. Both endpoints are doubles inside the plausible
  range; the Euclidean distance of the two points is below 0.5 (its square is
  \<open>1/4 - 15/2^60\<close>), and the computed length is exactly 0.5, so the line is returned.
\<close>

lemma boundary_dx:
  "double (360106210306415/134217728 - 2683000) = 46082415/134217728"
  by (subst double_eval [where e = "-2"]) (simp_all add: round_even_def power_int_minus)

lemma boundary_dy:
  "double (1340030186634823/1073741824 - 1248000) = 390282823/1073741824"
  by (subst double_eval [where e = "-2"]) (simp_all add: round_even_def power_int_minus)

lemma boundary_dx2:
  "double (46082415/134217728 * (46082415/134217728)) = 2123588972232225/18014398509481984"
  by (subst double_eval [where e = "-4"]) (simp_all add: round_even_def power_int_minus)

lemma boundary_dy2:
  "double (390282823/1073741824 * (390282823/1073741824)) = 2380010655138271/18014398509481984"
  by (subst double_eval [where e = "-3"]) (simp_all add: round_even_def power_int_minus)

lemma boundary_sum:
  "double (2123588972232225/18014398509481984 + 2380010655138271/18014398509481984) = 1/4"
  by (subst double_eval [where e = "-2"]) (simp_all add: round_even_def power_int_minus)

lemma double_half:
  "double (1/2) = 1/2"
  by (subst double_eval [where e = "-1"]) (simp_all add: round_even_def power_int_minus)

lemma boundary_x2:
  "double (360106210306415/134217728) = 360106210306415/134217728"
  by (subst double_eval [where e = "21"]) (simp_all add: round_even_def power_int_minus)

lemma boundary_y2:
  "double (1340030186634823/1073741824) = 1340030186634823/1073741824"
  by (subst double_eval [where e = "20"]) (simp_all add: round_even_def power_int_minus)

lemma double_x1:
  "double 2683000 = 2683000"
  by (subst double_eval [where e = "21"]) (simp_all add: round_even_def power_int_minus)

lemma double_y1:
  "double 1248000 = 1248000"
  by (subst double_eval [where e = "20"]) (simp_all add: round_even_def power_int_minus)

lemma boundary_length:
  "line_length (LineString [(2683000, 1248000),
       (360106210306415/134217728, 1340030186634823/1073741824)]) = 1/2"
proof -
  have r: "sqrt (1/4) = (1/2::real)"
    by (simp add: real_sqrt_divide)
  have z: "(0::real) + 1/2 = 1/2" by simp
  show ?thesis
    by (simp only: line_length_def linestring.sel path_length.simps segment_length_def
        Let_def fst_conv snd_conv boundary_dx boundary_dy boundary_dx2 boundary_dy2
        boundary_sum r double_half z)
qed

text \<open>
  The same sum results when the compiler fuses one of the two products into the addition,
  so the computed length is 0.5 in each evaluation order of \<^verbatim>\<open>dx * dx + dy * dy\<close>.
\<close>

lemma boundary_sum_fused:
  "double (46082415/134217728 * (46082415/134217728)
     + 2380010655138271/18014398509481984) = 1/4"
  "double (2123588972232225/18014398509481984
     + 390282823/1073741824 * (390282823/1073741824)) = 1/4"
  by (subst double_eval [where e = "-2"]; simp add: round_even_def power_int_minus)
    (subst double_eval [where e = "-3"]; simp add: round_even_def power_int_minus)

theorem rounded_length_counterexample:
  "validate_coordinates (Num 2683000) (Num 1248000) = Inr (True, OK)
   \<and> validate_coordinates (Num (360106210306415/134217728))
        (Num (1340030186634823/1073741824)) = Inr (True, OK)
   \<and> double 2683000 = 2683000 \<and> double 1248000 = 1248000
   \<and> double (360106210306415/134217728) = 360106210306415/134217728
   \<and> double (1340030186634823/1073741824) = 1340030186634823/1073741824
   \<and> sqrt ((360106210306415/134217728 - 2683000)\<^sup>2
        + (1340030186634823/1073741824 - 1248000)\<^sup>2) < (1/2::real)
   \<and> create_line_geometry (Num 2683000) (Num 1248000) (Num (360106210306415/134217728))
        (Num (1340030186634823/1073741824))
      = Inr (LineString [(2683000, 1248000),
          (360106210306415/134217728, 1340030186634823/1073741824)])"
proof -
  have v: "validate_coordinates (Num 2683000) (Num 1248000) = Inr (True, OK)"
    "validate_coordinates (Num (360106210306415/134217728))
        (Num (1340030186634823/1073741824)) = Inr (True, OK)"
    by (simp_all add: validate_coordinates_def bind_exn_def)
  have d: "sqrt ((360106210306415/134217728 - 2683000)\<^sup>2
        + (1340030186634823/1073741824 - 1248000)\<^sup>2) < (1/2::real)"
    by (rule real_less_lsqrt) (simp_all add: power2_eq_square)
  have c: "create_line_geometry (Num 2683000) (Num 1248000) (Num (360106210306415/134217728))
        (Num (1340030186634823/1073741824))
      = Inr (LineString [(2683000, 1248000),
          (360106210306415/134217728, 1340030186634823/1073741824)])"
    unfolding create_valid [OF v] boundary_length by simp
  from v d c show ?thesis
    by (simp only: boundary_x2 boundary_y2 double_x1 double_y1 simp_thms)
qed

section \<open>Properties of the row body\<close>

text \<open>A row that has all nine columns, with the values named.\<close>

lemma try_row_full:
  assumes "row X_Start = Some xs" "row Y_Start = Some ys" "row X_End = Some xe"
    "row Y_End = Some ye" "row Leitung_ID = Some lid" "row Material = Some mat"
    "row Durchmesser_mm = Some dm" "row Verlegedatum = Some vd" "row Bemerkung = Some b"
  shows "try_row L idx row =
     bind_exn (create_line_geometry xs ys xe ye) (\<lambda>geom.
     bind_exn (py_int dm) (\<lambda>d.
     bind_exn (to_datetime L vd) (\<lambda>v.
       Inr \<lparr>segment.leitung_id = lid, material = mat, durchmesser = d,
            verlegedatum = v, bemerkung = (if notna b then b else Str []),
            geometry = geom, import_datum = now L idx\<rparr>)))"
  using assms by (simp add: try_row_def getitem_def bind_exn_def)

lemma full_Some: "full r c = Some (r c)"
  by (cases c) (simp_all add: full_def series_of_def required_columns_def)

lemma try_row_on_full:
  "try_row L idx (full r) =
     bind_exn (create_line_geometry (r X_Start) (r Y_Start) (r X_End) (r Y_End)) (\<lambda>geom.
     bind_exn (py_int (r Durchmesser_mm)) (\<lambda>d.
     bind_exn (to_datetime L (r Verlegedatum)) (\<lambda>v.
       Inr \<lparr>segment.leitung_id = r Leitung_ID, material = r Material, durchmesser = d,
            verlegedatum = v,
            bemerkung = (if notna (r Bemerkung) then r Bemerkung else Str []),
            geometry = geom, import_datum = now L idx\<rparr>)))"
  by (rule try_row_full) (rule full_Some)+

lemma create_Inr_iff:
  "(\<exists>g. create_line_geometry xs ys xe ye = Inr g) \<longleftrightarrow>
     validate_coordinates xs ys = Inr (True, OK) \<and> validate_coordinates xe ye = Inr (True, OK)
     \<and> (\<exists>g. make_LineString [(xs, ys), (xe, ye)] = Inr g \<and> 1/2 \<le> line_length g)"
proof
  assume "\<exists>g. create_line_geometry xs ys xe ye = Inr g"
  then obtain g where g: "create_line_geometry xs ys xe ye = Inr g" ..
  from create_Inr_valid [OF g] have v: "validate_coordinates xs ys = Inr (True, OK)"
    "validate_coordinates xe ye = Inr (True, OK)" by simp_all
  from g v have "make_LineString [(xs, ys), (xe, ye)] = Inr g \<and> 1/2 \<le> line_length g"
    by (auto simp: create_line_geometry_def bind_exn_def split: sum.splits if_splits)
  with v show "validate_coordinates xs ys = Inr (True, OK) \<and> validate_coordinates xe ye = Inr (True, OK)
     \<and> (\<exists>g. make_LineString [(xs, ys), (xe, ye)] = Inr g \<and> 1/2 \<le> line_length g)"
    by blast
next
  assume "validate_coordinates xs ys = Inr (True, OK) \<and> validate_coordinates xe ye = Inr (True, OK)
     \<and> (\<exists>g. make_LineString [(xs, ys), (xe, ye)] = Inr g \<and> 1/2 \<le> line_length g)"
  then show "\<exists>g. create_line_geometry xs ys xe ye = Inr g"
    by (auto simp: create_line_geometry_def bind_exn_def)
qed

lemma create_A:
  "create_line_geometry (Num 2683000) (Num 1248000) (Num 2683100) (Num 1248100) =
     Inr (LineString [(2683000, 1248000), (2683100, 1248100)])"
proof -
  have v: "validate_coordinates (Num 2683000) (Num 1248000) = Inr (True, OK)"
    "validate_coordinates (Num 2683100) (Num 1248100) = Inr (True, OK)"
    by (simp_all add: validate_ok_iff)
  show ?thesis unfolding create_valid [OF v] using length_A by simp
qed

lemma iso_A: "iso_date ''2020-01-15'' = Some (Timestamp 2020 1 15)"
  by (simp add: iso_date_def plain_digits_def is_digit_def digit_value_def days_in_month_def)

lemma iso_E: "iso_date ''32.13.2020'' = None"
  by (simp add: iso_date_def plain_digits_def is_digit_def digit_value_def days_in_month_def)

lemma int_abc: "py_int (Str ''abc'') = Inl (ValueError (Int_not_convertible (Str ''abc'')))"
  by (simp add: int_of_string_def c_isspace_def ascii_space_def is_digit_def)

text \<open>
  The white space of \<^verbatim>\<open>int()\<close>: a separator character in front of the digits is not
  skipped, a no-break space after them is.
\<close>

lemma int_of_string_white_space:
  "int_of_string (CHR 0x1F # ''12'') = None"
  "int_of_string (''150'' @ [CHR 0xA0]) = Some 150"
  "int_of_string '' -1_000 '' = Some (- 1000)"
  by (simp_all add: int_of_string_def c_isspace_def ascii_space_def is_digit_def digit_value_def)

text \<open>The segment of the sample row.\<close>

lemma try_row_A:
  "try_row sample_library idx (full row_A) =
     Inr \<lparr>segment.leitung_id = Str ''L_SPECIAL_01'', material = Str ''PE'', durchmesser = 800,
          verlegedatum = Timestamp 2020 1 15, bemerkung = Str [],
          geometry = LineString [(2683000, 1248000), (2683100, 1248100)],
          import_datum = Timestamp 2024 1 1\<rparr>"
  unfolding try_row_on_full
  by (simp add: row_A_def create_A iso_A bind_exn_def sample_library_def trunc_def)

text \<open>
  C2, as amended. A row with all nine columns is accepted exactly when four gates pass, in
  this order: both endpoints pass the plausibility check and the line is at least 0.5
  long (the geometry), the diameter converts to an integer, and the date conversion
  returns without raising. The error of a rejected row is the one of the first gate that
  fails in this order.
\<close>

theorem try_row_gates:
  assumes "row X_Start = Some xs" "row Y_Start = Some ys" "row X_End = Some xe"
    "row Y_End = Some ye" "row Leitung_ID = Some lid" "row Material = Some mat"
    "row Durchmesser_mm = Some dm" "row Verlegedatum = Some vd" "row Bemerkung = Some b"
  shows "((\<exists>seg. try_row L idx row = Inr seg) \<longleftrightarrow>
            validate_coordinates xs ys = Inr (True, OK)
            \<and> validate_coordinates xe ye = Inr (True, OK)
            \<and> (\<exists>g. make_LineString [(xs, ys), (xe, ye)] = Inr g \<and> 1/2 \<le> line_length g)
            \<and> (\<exists>d. py_int dm = Inr d)
            \<and> (\<exists>v. to_datetime L vd = Inr v))
     \<and> try_row L idx row =
         (case create_line_geometry xs ys xe ye of
            Inl e \<Rightarrow> Inl e
          | Inr g \<Rightarrow>
              (case py_int dm of
                 Inl e \<Rightarrow> Inl e
               | Inr d \<Rightarrow>
                   (case to_datetime L vd of
                      Inl e \<Rightarrow> Inl e
                    | Inr v \<Rightarrow> try_row L idx row)))"
proof -
  note t = try_row_full [OF assms, of L idx]
  have "(\<exists>seg. try_row L idx row = Inr seg) \<longleftrightarrow>
      (\<exists>g. create_line_geometry xs ys xe ye = Inr g) \<and> (\<exists>d. py_int dm = Inr d)
      \<and> (\<exists>v. to_datetime L vd = Inr v)"
    unfolding t by (auto simp: bind_exn_def split: sum.splits)
  then have 1: "(\<exists>seg. try_row L idx row = Inr seg) \<longleftrightarrow>
            validate_coordinates xs ys = Inr (True, OK)
            \<and> validate_coordinates xe ye = Inr (True, OK)
            \<and> (\<exists>g. make_LineString [(xs, ys), (xe, ye)] = Inr g \<and> 1/2 \<le> line_length g)
            \<and> (\<exists>d. py_int dm = Inr d)
            \<and> (\<exists>v. to_datetime L vd = Inr v)"
    unfolding create_Inr_iff by blast
  have 2: "try_row L idx row =
         (case create_line_geometry xs ys xe ye of
            Inl e \<Rightarrow> Inl e
          | Inr g \<Rightarrow>
              (case py_int dm of
                 Inl e \<Rightarrow> Inl e
               | Inr d \<Rightarrow>
                   (case to_datetime L vd of
                      Inl e \<Rightarrow> Inl e
                    | Inr v \<Rightarrow> try_row L idx row)))"
    by (simp add: t bind_exn_def split: sum.splits)
  from 1 2 show ?thesis by (rule conjI)
qed

theorem try_row_gates_witness:
  "(\<exists>seg. try_row sample_library 0 (full row_A) = Inr seg)
   \<and> try_row sample_library 0 (full (row_A(X_Start := Num 1000000, Durchmesser_mm := Str ''abc'')))
       = Inl (ValueError (Startpunkt_ungueltig (X_ausserhalb (Num 1000000))))
   \<and> try_row sample_library 0
        (full (row_A(Durchmesser_mm := Str ''abc'', Verlegedatum := Str ''32.13.2020'')))
       = Inl (ValueError (Int_not_convertible (Str ''abc'')))
   \<and> try_row sample_library 0 (full (row_A(Verlegedatum := Str ''32.13.2020'')))
       = Inl (ValueError (Library_text ''32.13.2020''))"
proof -
  {
    fix r :: "column \<Rightarrow> cell"
    note try_row_gates [OF full_Some [of r X_Start] full_Some [of r Y_Start]
        full_Some [of r X_End] full_Some [of r Y_End] full_Some [of r Leitung_ID]
        full_Some [of r Material] full_Some [of r Durchmesser_mm]
        full_Some [of r Verlegedatum] full_Some [of r Bemerkung], of sample_library 0]
  }
  note g = this
  have 1: "\<exists>seg. try_row sample_library 0 (full row_A) = Inr seg"
    by (rule g [of row_A, THEN conjunct1, THEN iffD2])
      (use length_A in \<open>simp add: row_A_def validate_ok_iff make_LineString_def
        sample_library_def iso_A\<close>)
  have 2: "try_row sample_library 0
        (full (row_A(X_Start := Num 1000000, Durchmesser_mm := Str ''abc'')))
       = Inl (ValueError (Startpunkt_ungueltig (X_ausserhalb (Num 1000000))))"
    by (subst g [THEN conjunct2])
      (simp add: row_A_def create_line_geometry_def validate_coordinates_def bind_exn_def)
  have 3: "try_row sample_library 0
        (full (row_A(Durchmesser_mm := Str ''abc'', Verlegedatum := Str ''32.13.2020'')))
       = Inl (ValueError (Int_not_convertible (Str ''abc'')))"
    by (subst g [THEN conjunct2]) (simp add: row_A_def create_A int_abc del: py_int.simps)
  have 4: "try_row sample_library 0 (full (row_A(Verlegedatum := Str ''32.13.2020'')))
       = Inl (ValueError (Library_text ''32.13.2020''))"
    by (subst g [THEN conjunct2])
      (simp add: row_A_def create_A sample_library_def iso_E)
  from 1 2 3 4 show ?thesis by blast
qed

text \<open>
  C2 as stated fails in both directions. On the first row the three gates of the claim
  pass (both endpoints plausible, length about 141.4, the date \<^verbatim>\<open>2020-01-15\<close> converts),
  and the row is rejected all the same, because its diameter is the text \<^verbatim>\<open>abc\<close>. On the
  second row the date cell is empty, so no date string parses as a calendar date; the
  conversion returns \<^verbatim>\<open>NaT\<close> without raising and the row is accepted with it.
\<close>

theorem three_gates_counterexample:
  "validate_coordinates (Num 2683000) (Num 1248000) = Inr (True, OK)
   \<and> validate_coordinates (Num 2683100) (Num 1248100) = Inr (True, OK)
   \<and> 1/2 \<le> line_length (LineString [(2683000, 1248000), (2683100, 1248100)])
   \<and> to_datetime sample_library (Str ''2020-01-15'') = Inr (Timestamp 2020 1 15)
   \<and> try_row sample_library 0 (full (row_A(Durchmesser_mm := Str ''abc'')))
       = Inl (ValueError (Int_not_convertible (Str ''abc'')))
   \<and> to_datetime sample_library NaN = Inr NaT
   \<and> try_row sample_library 0 (full (row_A(Verlegedatum := NaN)))
       = Inr \<lparr>segment.leitung_id = Str ''L_SPECIAL_01'', material = Str ''PE'',
              durchmesser = 800, verlegedatum = NaT, bemerkung = Str [],
              geometry = LineString [(2683000, 1248000), (2683100, 1248100)],
              import_datum = Timestamp 2024 1 1\<rparr>"
proof -
  have 5: "try_row sample_library 0 (full (row_A(Durchmesser_mm := Str ''abc'')))
       = Inl (ValueError (Int_not_convertible (Str ''abc'')))"
    unfolding try_row_on_full
    by (simp add: row_A_def create_A int_abc bind_exn_def del: py_int.simps)
  have 6: "try_row sample_library 0 (full (row_A(Verlegedatum := NaN)))
       = Inr \<lparr>segment.leitung_id = Str ''L_SPECIAL_01'', material = Str ''PE'',
              durchmesser = 800, verlegedatum = NaT, bemerkung = Str [],
              geometry = LineString [(2683000, 1248000), (2683100, 1248100)],
              import_datum = Timestamp 2024 1 1\<rparr>"
    unfolding try_row_on_full
    by (simp add: row_A_def create_A bind_exn_def sample_library_def trunc_def)
  show ?thesis
    using length_A 5 6 by (simp add: validate_ok_iff sample_library_def iso_A)
qed

lemma trunc_toward_zero:
  "\<bar>real_of_int (trunc r)\<bar> \<le> \<bar>r\<bar> \<and> \<bar>r - real_of_int (trunc r)\<bar> < 1"
  unfolding trunc_def by (auto; linarith)

text \<open>
  C10. In a row with all nine columns whose geometry is built and whose date converts,
  only the integer conversion of the diameter decides: the row is rejected exactly when
  \<^verbatim>\<open>int()\<close> raises. A number never makes it raise: the row is accepted and the stored
  diameter is the number truncated toward zero (the floor of a non-negative number, the
  ceiling of a negative one), so it is not rounded.
\<close>

theorem durchmesser_truncated:
  assumes "row X_Start = Some xs" "row Y_Start = Some ys" "row X_End = Some xe"
    "row Y_End = Some ye" "row Leitung_ID = Some lid" "row Material = Some mat"
    "row Durchmesser_mm = Some dm" "row Verlegedatum = Some vd" "row Bemerkung = Some b"
    and "create_line_geometry xs ys xe ye = Inr g"
    and "to_datetime L vd = Inr v"
  shows "((\<exists>e. try_row L idx row = Inl e) \<longleftrightarrow> (\<exists>e. py_int dm = Inl e))
     \<and> (if dm = Num r
         then \<exists>seg. try_row L idx row = Inr seg
                \<and> durchmesser seg = (if 0 \<le> r then \<lfloor>r\<rfloor> else \<lceil>r\<rceil>)
                \<and> \<bar>real_of_int (durchmesser seg)\<bar> \<le> \<bar>r\<bar>
                \<and> \<bar>r - real_of_int (durchmesser seg)\<bar> < 1
         else True)"
proof -
  note t = try_row_full [OF assms(1-9), of L idx]
  have 1: "(\<exists>e. try_row L idx row = Inl e) \<longleftrightarrow> (\<exists>e. py_int dm = Inl e)"
    unfolding t using assms(10,11) by (auto simp: bind_exn_def split: sum.splits)
  have 2: "\<exists>seg. try_row L idx row = Inr seg
                \<and> durchmesser seg = (if 0 \<le> r then \<lfloor>r\<rfloor> else \<lceil>r\<rceil>)
                \<and> \<bar>real_of_int (durchmesser seg)\<bar> \<le> \<bar>r\<bar>
                \<and> \<bar>r - real_of_int (durchmesser seg)\<bar> < 1" if "dm = Num r"
  proof -
    let ?seg = "\<lparr>segment.leitung_id = lid, material = mat, durchmesser = trunc r,
            verlegedatum = v, bemerkung = (if notna b then b else Str []),
            geometry = g, import_datum = now L idx\<rparr>"
    have "try_row L idx row = Inr ?seg"
      unfolding t using assms(10,11) that by (simp add: bind_exn_def)
    then have "\<exists>seg. try_row L idx row = Inr seg \<and> durchmesser seg = trunc r"
      by (intro exI [of _ ?seg]) simp
    then obtain seg where s: "try_row L idx row = Inr seg" "durchmesser seg = trunc r"
      by blast
    have f: "durchmesser seg = (if 0 \<le> r then \<lfloor>r\<rfloor> else \<lceil>r\<rceil>)"
      using s(2) by (simp add: trunc_def)
    have b: "\<bar>real_of_int (durchmesser seg)\<bar> \<le> \<bar>r\<bar>
        \<and> \<bar>r - real_of_int (durchmesser seg)\<bar> < 1"
      unfolding s(2) by (rule trunc_toward_zero)
    from s(1) f b show ?thesis by blast
  qed
  from 1 2 show ?thesis by simp
qed

theorem durchmesser_truncated_witness:
  "\<exists>seg. try_row sample_library 0 (full (row_A(Durchmesser_mm := Num 150.9))) = Inr seg
     \<and> durchmesser seg = 150"
proof -
  have c: "create_line_geometry ((row_A(Durchmesser_mm := Num 150.9)) X_Start)
      ((row_A(Durchmesser_mm := Num 150.9)) Y_Start) ((row_A(Durchmesser_mm := Num 150.9)) X_End)
      ((row_A(Durchmesser_mm := Num 150.9)) Y_End)
       = Inr (LineString [(2683000, 1248000), (2683100, 1248100)])"
    by (simp add: row_A_def create_A)
  have d: "to_datetime sample_library ((row_A(Durchmesser_mm := Num 150.9)) Verlegedatum)
       = Inr (Timestamp 2020 1 15)"
    by (simp add: row_A_def sample_library_def iso_A)
  let ?r = "row_A(Durchmesser_mm := Num 150.9)"
  from durchmesser_truncated [OF full_Some [of ?r X_Start] full_Some [of ?r Y_Start]
      full_Some [of ?r X_End] full_Some [of ?r Y_End] full_Some [of ?r Leitung_ID]
      full_Some [of ?r Material] full_Some [of ?r Durchmesser_mm]
      full_Some [of ?r Verlegedatum] full_Some [of ?r Bemerkung] c d, of 0 "150.9"]
  show ?thesis by auto
qed

section \<open>Properties of the row loop\<close>

lemma process_rows_eq:
  "process_rows L rs (v, e) =
     (v @ List.map_filter (accepted L) rs, e @ List.map_filter (rejected L) rs)"
proof (induction rs arbitrary: v e)
  case Nil
  show ?case by (simp add: List.map_filter_simps)
next
  case (Cons p rs)
  obtain idx row where p: "p = (idx, row)" by (cases p)
  show ?case
    unfolding p
    by (cases "try_row L idx row")
      (simp_all add: Cons.IH List.map_filter_simps accepted_def rejected_def)
qed

lemma outcome_exclusive: "(accepted L p = None) \<noteq> (rejected L p = None)"
  by (cases "try_row L (fst p) (snd p)") (simp_all add: accepted_def rejected_def)

lemma outcome_count:
  "length (List.map_filter (accepted L) rs) + length (List.map_filter (rejected L) rs)
     = length rs"
proof (induction rs)
  case Nil
  show ?case by (simp add: List.map_filter_simps)
next
  case (Cons p rs)
  then show ?case
    by (cases "try_row L (fst p) (snd p)")
      (simp_all add: List.map_filter_simps accepted_def rejected_def)
qed

lemma process_records_eq:
  "process_records L self df =
     (GeoDataFrame (List.map_filter (accepted L) (iterrows df)),
      self\<lparr>error_records := error_records self @ List.map_filter (rejected L) (iterrows df)\<rparr>)"
  by (simp add: process_records_def process_rows_eq)

lemma iterrows_nth:
  "i < length (rows df) \<Longrightarrow> iterrows df ! i = (i, series_of (columns df) (rows df ! i))"
  by (simp add: iterrows_def nth_enumerate_eq)

lemma map_filter_mem:
  "p \<in> set rs \<Longrightarrow> f p = Some y \<Longrightarrow> y \<in> set (List.map_filter f rs)"
  by (force simp: List.map_filter_def)

text \<open>
  C1. In a run of the row loop that starts with an empty accumulator, every row yields
  exactly one of the two outcomes: the list of records the loop builds holds those of the
  accepted rows, the accumulator holds the entries of the rejected rows, no row is both
  and none is neither, and the two counts add up to the number of rows. The list of
  records is returned as the batch when it is not empty; with no accepted row the frame
  constructor raises after the loop, and the accumulator holds one entry for every row.
\<close>

theorem process_records_partition:
  assumes "error_records self = []"
  shows "process_rows L (iterrows df) ([], error_records self)
       = (List.map_filter (accepted L) (iterrows df),
          List.map_filter (rejected L) (iterrows df))
     \<and> error_records (snd (process_records L self df))
         = List.map_filter (rejected L) (iterrows df)
     \<and> list_all (\<lambda>p. (accepted L p = None) \<noteq> (rejected L p = None)) (iterrows df)
     \<and> length (List.map_filter (accepted L) (iterrows df))
         + length (error_records (snd (process_records L self df)))
       = length (rows df)
     \<and> fst (process_records L self df)
         = (if List.map_filter (accepted L) (iterrows df) = []
            then Inl (ValueError Crs_without_geometry)
            else Inr (List.map_filter (accepted L) (iterrows df)))"
proof -
  have 1: "process_rows L (iterrows df) ([], error_records self)
       = (List.map_filter (accepted L) (iterrows df),
          List.map_filter (rejected L) (iterrows df))"
    using assms by (simp add: process_rows_eq)
  have 2: "error_records (snd (process_records L self df))
         = List.map_filter (rejected L) (iterrows df)"
    using assms by (simp add: process_records_eq)
  have 3: "list_all (\<lambda>p. (accepted L p = None) \<noteq> (rejected L p = None)) (iterrows df)"
    unfolding list_all_iff by (intro ballI outcome_exclusive)
  have "length (iterrows df) = length (rows df)"
    by (simp add: iterrows_def)
  then have 4: "length (List.map_filter (accepted L) (iterrows df))
         + length (error_records (snd (process_records L self df)))
       = length (rows df)"
    unfolding 2 by (simp add: outcome_count)
  have 5: "fst (process_records L self df)
         = (if List.map_filter (accepted L) (iterrows df) = []
            then Inl (ValueError Crs_without_geometry)
            else Inr (List.map_filter (accepted L) (iterrows df)))"
    by (simp add: process_records_eq GeoDataFrame_def)
  from 1 2 3 4 5 show ?thesis by blast
qed

lemma try_row_C:
  "try_row L idx (full (row_A(X_Start := Num 1000000)))
     = Inl (ValueError (Startpunkt_ungueltig (X_ausserhalb (Num 1000000))))"
  unfolding try_row_on_full
  by (simp add: row_A_def create_line_geometry_def validate_coordinates_def bind_exn_def)

lemma iterrows_frame2:
  "iterrows (frame [r1, r2]) = [(0, full r1), (1, full r2)]"
  by (simp add: iterrows_def frame_def full_def)

lemma iterrows_frame1:
  "iterrows (frame [r1]) = [(0, full r1)]"
  by (simp add: iterrows_def frame_def full_def)

theorem process_records_partition_witness:
  "(\<exists>gdf. fst (process_records sample_library (init [])
        (frame [row_A, row_A(X_Start := Num 1000000)])) = Inr gdf \<and> length gdf = 1)
   \<and> length (error_records (snd (process_records sample_library (init [])
        (frame [row_A, row_A(X_Start := Num 1000000)])))) = 1
   \<and> fst (process_records sample_library (init []) (frame [row_A(X_Start := Num 1000000)]))
      = Inl (ValueError Crs_without_geometry)
   \<and> length (error_records (snd (process_records sample_library (init [])
        (frame [row_A(X_Start := Num 1000000)])))) = 1"
proof -
  have e: "error_records (init []) = []"
    by (simp add: init_def)
  let ?df = "frame [row_A, row_A(X_Start := Num 1000000)]"
  let ?df1 = "frame [row_A(X_Start := Num 1000000)]"
  note p = process_records_partition [OF e, of sample_library ?df]
  note q = process_records_partition [OF e, of sample_library ?df1]
  have 1: "length (List.map_filter (accepted sample_library) (iterrows ?df)) = 1"
    by (simp add: iterrows_frame2 List.map_filter_simps accepted_def try_row_A try_row_C)
  have 2: "length (rows ?df) = 2"
    by (simp add: frame_def)
  have 3: "List.map_filter (accepted sample_library) (iterrows ?df1) = []"
    by (simp add: iterrows_frame1 List.map_filter_simps accepted_def try_row_C)
  have 4: "length (rows ?df1) = 1"
    by (simp add: frame_def)
  from 1 have 5: "List.map_filter (accepted sample_library) (iterrows ?df) \<noteq> []"
    by auto
  from p have pf: "fst (process_records sample_library (init []) ?df)
         = (if List.map_filter (accepted sample_library) (iterrows ?df) = []
            then Inl (ValueError Crs_without_geometry)
            else Inr (List.map_filter (accepted sample_library) (iterrows ?df)))"
    and pn: "length (List.map_filter (accepted sample_library) (iterrows ?df))
         + length (error_records (snd (process_records sample_library (init []) ?df)))
       = length (rows ?df)"
    by blast+
  from q have qf: "fst (process_records sample_library (init []) ?df1)
         = (if List.map_filter (accepted sample_library) (iterrows ?df1) = []
            then Inl (ValueError Crs_without_geometry)
            else Inr (List.map_filter (accepted sample_library) (iterrows ?df1)))"
    and qn: "length (List.map_filter (accepted sample_library) (iterrows ?df1))
         + length (error_records (snd (process_records sample_library (init []) ?df1)))
       = length (rows ?df1)"
    by blast+
  from pf 1 5 pn 2 have a: "(\<exists>gdf. fst (process_records sample_library (init []) ?df) = Inr gdf
        \<and> length gdf = 1)
      \<and> length (error_records (snd (process_records sample_library (init []) ?df))) = 1"
    by auto
  from qf qn 3 4 have b: "fst (process_records sample_library (init []) ?df1)
        = Inl (ValueError Crs_without_geometry)
      \<and> length (error_records (snd (process_records sample_library (init []) ?df1))) = 1"
    by auto
  from a b show ?thesis by blast
qed

text \<open>
  C5, as amended. Every row of the frame is processed, whatever happened to the rows
  before it: a row at position \<open>i\<close> whose body raises \<open>e\<close> leaves an entry with row number
  \<open>i + 2\<close>, the text of \<open>e\<close> and, as identifier, the raw value of the cell
  \<^verbatim>\<open>Leitung_ID\<close> (the NaN of an empty cell included); the sentinel \<^verbatim>\<open>UNBEKANNT\<close> stands in
  only when the row has no such column. A row whose body returns is among the records of
  the batch, which is then returned.
\<close>

theorem process_records_error_entries:
  assumes "i < length (rows df)" and "row = series_of (columns df) (rows df ! i)"
  shows "(case try_row L i row of
            Inl e \<Rightarrow>
              \<lparr>zeile = i + 2,
               error_info.leitung_id =
                 (case row Leitung_ID of Some v \<Rightarrow> v | None \<Rightarrow> Str ''UNBEKANNT''),
               fehler = str e\<rparr>
              \<in> set (error_records (snd (process_records L self df)))
          | Inr seg \<Rightarrow>
              (\<exists>gdf. fst (process_records L self df) = Inr gdf \<and> seg \<in> set gdf))"
proof -
  from assms have "iterrows df ! i = (i, row)"
    by (simp add: iterrows_nth)
  moreover from assms(1) have "i < length (iterrows df)"
    by (simp add: iterrows_def)
  ultimately have m: "(i, row) \<in> set (iterrows df)"
    by (metis nth_mem)
  show ?thesis
  proof (cases "try_row L i row")
    case (Inl e)
    then have "rejected L (i, row) = Some (make_error_info i row e)"
      by (simp add: rejected_def)
    from map_filter_mem [where f = "rejected L", OF m this]
    have "make_error_info i row e \<in> set (error_records (snd (process_records L self df)))"
      by (simp add: process_records_eq)
    with Inl show ?thesis
      by (simp add: make_error_info_def row_get_def)
  next
    case (Inr seg)
    then have "accepted L (i, row) = Some seg"
      by (simp add: accepted_def)
    from map_filter_mem [where f = "accepted L", OF m this]
    have "seg \<in> set (List.map_filter (accepted L) (iterrows df))" .
    then have "GeoDataFrame (List.map_filter (accepted L) (iterrows df))
        = Inr (List.map_filter (accepted L) (iterrows df))
      \<and> seg \<in> set (List.map_filter (accepted L) (iterrows df))"
      by (auto simp: GeoDataFrame_def)
    with Inr show ?thesis
      by (simp add: process_records_eq)
  qed
qed

theorem process_records_error_entries_witness:
  "\<lparr>zeile = 3, error_info.leitung_id = Str ''L_SPECIAL_01'',
     fehler = Startpunkt_ungueltig (X_ausserhalb (Num 1000000))\<rparr>
     \<in> set (error_records (snd (process_records sample_library (init [])
          (frame [row_A, row_A(X_Start := Num 1000000), row_A]))))"
proof -
  let ?df = "frame [row_A, row_A(X_Start := Num 1000000), row_A]"
  have i: "1 < length (rows ?df)"
    by (simp add: frame_def)
  have r: "full (row_A(X_Start := Num 1000000)) = series_of (columns ?df) (rows ?df ! 1)"
    by (simp add: frame_def full_def)
  from process_records_error_entries [OF i r, of sample_library "init []"]
  show ?thesis
    by (simp add: try_row_C full_Some row_A_def numeral_3_eq_3)
qed

text \<open>
  C5 as stated fails on the identifier. A rejected row whose identifier cell is empty is
  recorded with the NaN of that cell, and a rejected row of a frame without the column
  \<^verbatim>\<open>Leitung_ID\<close> is recorded with \<^verbatim>\<open>UNBEKANNT\<close>; neither is \<^verbatim>\<open>UNKNOWN\<close>.
\<close>

theorem error_identifier_counterexample:
  "error_records (snd (process_records sample_library (init [])
       (frame [row_A(Leitung_ID := NaN, X_Start := Num 1000000)])))
     = [\<lparr>zeile = 2, error_info.leitung_id = NaN,
         fehler = Startpunkt_ungueltig (X_ausserhalb (Num 1000000))\<rparr>]
   \<and> error_records (snd (process_records sample_library (init [])
       \<lparr>columns = [X_Start, Y_Start, X_End, Y_End], dtypes = sample_dtypes,
        rows = [row_A(X_Start := Num 1000000)]\<rparr>))
     = [\<lparr>zeile = 2, error_info.leitung_id = Str ''UNBEKANNT'',
         fehler = Startpunkt_ungueltig (X_ausserhalb (Num 1000000))\<rparr>]
   \<and> NaN \<noteq> Str ''UNKNOWN'' \<and> Str ''UNBEKANNT'' \<noteq> Str ''UNKNOWN''"
proof -
  have t1: "try_row sample_library 0 (full (row_A(Leitung_ID := NaN, X_Start := Num 1000000)))
      = Inl (ValueError (Startpunkt_ungueltig (X_ausserhalb (Num 1000000))))"
    unfolding try_row_on_full
    by (simp add: row_A_def create_line_geometry_def validate_coordinates_def bind_exn_def)
  have 1: "error_records (snd (process_records sample_library (init [])
       (frame [row_A(Leitung_ID := NaN, X_Start := Num 1000000)])))
     = [\<lparr>zeile = 2, error_info.leitung_id = NaN,
         fehler = Startpunkt_ungueltig (X_ausserhalb (Num 1000000))\<rparr>]"
    by (simp add: process_records_eq iterrows_frame1 List.map_filter_simps rejected_def t1
        init_def make_error_info_def row_get_def full_Some)
  have t2: "try_row sample_library 0
       (series_of [X_Start, Y_Start, X_End, Y_End] (row_A(X_Start := Num 1000000)))
      = Inl (ValueError (Startpunkt_ungueltig (X_ausserhalb (Num 1000000))))"
    by (simp add: try_row_def getitem_def series_of_def row_A_def create_line_geometry_def
        validate_coordinates_def bind_exn_def)
  have n: "series_of [X_Start, Y_Start, X_End, Y_End] r Leitung_ID = None" for r
    by (simp add: series_of_def)
  have 2: "error_records (snd (process_records sample_library (init [])
       \<lparr>columns = [X_Start, Y_Start, X_End, Y_End], dtypes = sample_dtypes,
        rows = [row_A(X_Start := Num 1000000)]\<rparr>))
     = [\<lparr>zeile = 2, error_info.leitung_id = Str ''UNBEKANNT'',
         fehler = Startpunkt_ungueltig (X_ausserhalb (Num 1000000))\<rparr>]"
    by (simp add: process_records_eq iterrows_def List.map_filter_simps rejected_def t2
        init_def make_error_info_def row_get_def n)
  from 1 2 show ?thesis by simp
qed

section \<open>Properties of the run\<close>

lemma read_excel_Some_iff:
  "read_excel w p = Some df \<longleftrightarrow>
     (\<exists>df0. excel_files w p = Sheet df0 \<and> set required_columns \<subseteq> set (columns df0)
        \<and> df = strip_object_columns df0)"
  by (cases "excel_files w p")
    (auto simp: read_excel_def Let_def filter_empty_conv)

text \<open>The run, with the row loop replaced by its two outcome lists.\<close>

lemma run_import_eq:
  "run_import L w self p =
     (case read_excel w p of
        None \<Rightarrow> (Inr False, self, w)
      | Some df \<Rightarrow>
          (let gdf = List.map_filter (accepted L) (iterrows df);
               self1 = self\<lparr>error_records :=
                 error_records self @ List.map_filter (rejected L) (iterrows df)\<rparr>
           in if gdf = [] then (Inl (ValueError Crs_without_geometry), self1, w)
              else if \<not> db_reachable w (db_config self) then (Inr False, self1, w)
              else
                (let ok = list_all (\<lambda>row. db_accepts w (insert_params L row)) gdf
                       \<and> db_commits w;
                     w1 = (if ok
                           then w\<lparr>db_committed :=
                             db_committed w @ [map (insert_params L) gdf]\<rparr>
                           else w)
                 in (Inr ok, self1\<lparr>conn := Some Connection\<rparr>,
                     save_error_report w1 (self1\<lparr>conn := Some Connection\<rparr>)
                       (replace p ''.xlsx'' ''_fehler.csv'')))))"
  by (simp add: run_import_def process_records_eq GeoDataFrame_def connect_db_def
      write_to_database_def Let_def split: option.splits)

text \<open>
  The three ways a run ends: it returns \<open>False\<close> for an unreadable workbook, a missing
  column or a refused connection; it raises when no row is accepted; otherwise it returns
  what the batch write returns.
\<close>

lemma run_import_outcome:
  "fst (run_import L w self p) =
     (case read_excel w p of
        None \<Rightarrow> Inr False
      | Some df \<Rightarrow>
          if List.map_filter (accepted L) (iterrows df) = []
          then Inl (ValueError Crs_without_geometry)
          else if \<not> db_reachable w (db_config self) then Inr False
          else Inr (list_all (\<lambda>row. db_accepts w (insert_params L row))
                      (List.map_filter (accepted L) (iterrows df)) \<and> db_commits w))"
  by (simp add: run_import_eq Let_def split: option.splits)

lemma run_import_success_iff:
  "fst (run_import L w self p) = Inr True \<longleftrightarrow>
     (\<exists>df0. excel_files w p = Sheet df0
        \<and> set required_columns \<subseteq> set (columns df0)
        \<and> List.map_filter (accepted L) (iterrows (strip_object_columns df0)) \<noteq> []
        \<and> db_reachable w (db_config self)
        \<and> list_all (\<lambda>row. db_accepts w (insert_params L row))
             (List.map_filter (accepted L) (iterrows (strip_object_columns df0)))
        \<and> db_commits w)"
proof (cases "read_excel w p")
  case None
  then have "\<not> (\<exists>df0. excel_files w p = Sheet df0
        \<and> set required_columns \<subseteq> set (columns df0))"
    using read_excel_Some_iff [of w p] by auto
  with None show ?thesis
    by (auto simp: run_import_outcome)
next
  case (Some df)
  then obtain df0 where d: "excel_files w p = Sheet df0"
    "set required_columns \<subseteq> set (columns df0)" "df = strip_object_columns df0"
    unfolding read_excel_Some_iff by blast
  show ?thesis
    using Some d by (auto simp: run_import_outcome)
qed

text \<open>The sample frames as \<^verbatim>\<open>read_excel\<close> returns them.\<close>

lemma strip_A:
  "(\<lambda>c. if sample_dtypes c = object then str_strip (row_A c) else row_A c) = row_A"
  by (rule ext) (simp add: sample_dtypes_def row_A_def strip_def is_space_def split: column.splits)

lemma strip_C:
  "(\<lambda>c. if sample_dtypes c = object then str_strip ((row_A(X_Start := Num 1000000)) c)
        else (row_A(X_Start := Num 1000000)) c) = row_A(X_Start := Num 1000000)"
  by (rule ext) (simp add: sample_dtypes_def row_A_def strip_def is_space_def split: column.splits)

lemma read_sample:
  "read_excel (sample_world (frame rs)) ''leitungen.xlsx''
     = Some (frame (map (\<lambda>r c. if sample_dtypes c = object then str_strip (r c) else r c) rs))"
  by (simp add: read_excel_def sample_world_def frame_def strip_object_columns_def)

lemma replace_sample: "replace ''leitungen.xlsx'' ''.xlsx'' ''_fehler.csv'' = ''leitungen_fehler.csv''"
  by (simp add: replace_def)

lemma outcomes_A [simp]:
  "accepted sample_library (idx, full row_A) =
     Some \<lparr>segment.leitung_id = Str ''L_SPECIAL_01'', material = Str ''PE'', durchmesser = 800,
          verlegedatum = Timestamp 2020 1 15, bemerkung = Str [],
          geometry = LineString [(2683000, 1248000), (2683100, 1248100)],
          import_datum = Timestamp 2024 1 1\<rparr>"
  "rejected sample_library (idx, full row_A) = None"
  by (simp_all add: accepted_def rejected_def try_row_A)

lemma outcomes_C [simp]:
  "accepted sample_library (idx, full (row_A(X_Start := Num 1000000))) = None"
  "rejected sample_library (idx, full (row_A(X_Start := Num 1000000))) =
     Some \<lparr>zeile = idx + 2, error_info.leitung_id = Str ''L_SPECIAL_01'',
           fehler = Startpunkt_ungueltig (X_ausserhalb (Num 1000000))\<rparr>"
  by (simp_all add: accepted_def rejected_def try_row_C make_error_info_def row_get_def
      full_Some row_A_def)

lemma run_mixed:
  "run_import sample_library (sample_world (frame [row_A, row_A(X_Start := Num 1000000)]))
       (init []) ''leitungen.xlsx''
     = (Inr True,
        \<lparr>db_config = [], conn = Some Connection,
         error_records = [\<lparr>zeile = 3, error_info.leitung_id = Str ''L_SPECIAL_01'',
           fehler = Startpunkt_ungueltig (X_ausserhalb (Num 1000000))\<rparr>]\<rparr>,
        (sample_world (frame [row_A, row_A(X_Start := Num 1000000)]))
          \<lparr>db_committed :=
             [[insert_params sample_library
                \<lparr>segment.leitung_id = Str ''L_SPECIAL_01'', material = Str ''PE'',
                 durchmesser = 800, verlegedatum = Timestamp 2020 1 15, bemerkung = Str [],
                 geometry = LineString [(2683000, 1248000), (2683100, 1248100)],
                 import_datum = Timestamp 2024 1 1\<rparr>]],
           csv_written :=
             [(''leitungen_fehler.csv'',
               [\<lparr>zeile = 3, error_info.leitung_id = Str ''L_SPECIAL_01'',
                 fehler = Startpunkt_ungueltig (X_ausserhalb (Num 1000000))\<rparr>])]\<rparr>)"
  by (simp add: run_import_eq read_sample strip_A strip_C iterrows_frame2
      List.map_filter_simps replace_sample save_error_report_def init_def Let_def
      numeral_3_eq_3)
    (simp add: sample_world_def)

lemma run_all_rejected:
  "run_import sample_library (sample_world (frame [row_A(X_Start := Num 1000000)]))
       (init []) ''leitungen.xlsx''
     = (Inl (ValueError Crs_without_geometry),
        \<lparr>db_config = [], conn = None,
         error_records = [\<lparr>zeile = 2, error_info.leitung_id = Str ''L_SPECIAL_01'',
           fehler = Startpunkt_ungueltig (X_ausserhalb (Num 1000000))\<rparr>]\<rparr>,
        sample_world (frame [row_A(X_Start := Num 1000000)]))"
  by (simp add: run_import_eq read_sample strip_C iterrows_frame1
      List.map_filter_simps init_def Let_def)

lemma run_empty_sheet:
  "run_import L (sample_world (frame [])) (init []) ''leitungen.xlsx''
     = (Inl (ValueError Crs_without_geometry), init [], sample_world (frame []))"
proof -
  have i: "iterrows (frame []) = []"
    by (simp add: iterrows_def frame_def)
  show ?thesis
    by (simp add: run_import_eq read_sample i List.map_filter_simps init_def Let_def)
qed

text \<open>
  C7 at the failing input: a readable workbook with all nine columns whose only row is
  rejected, and a readable workbook without rows. In both the run raises the
  \<^verbatim>\<open>ValueError\<close> of the frame constructor: it returns neither \<open>True\<close> nor \<open>False\<close>, and
  the guard for an empty batch that follows the call is not reached.
\<close>

theorem run_without_valid_row:
  "read_excel (sample_world (frame [row_A(X_Start := Num 1000000)])) ''leitungen.xlsx''
     = Some (frame [row_A(X_Start := Num 1000000)])
   \<and> fst (run_import sample_library
       (sample_world (frame [row_A(X_Start := Num 1000000)])) (init []) ''leitungen.xlsx'')
     = Inl (ValueError Crs_without_geometry)
   \<and> read_excel (sample_world (frame [])) ''leitungen.xlsx'' = Some (frame [])
   \<and> fst (run_import sample_library (sample_world (frame [])) (init []) ''leitungen.xlsx'')
     = Inl (ValueError Crs_without_geometry)"
  by (simp add: run_all_rejected run_empty_sheet read_sample strip_C)

text \<open>
  The reports of a run: one file, written only when the run gets past the call of
  \<^verbatim>\<open>process_records\<close> (which raises when no row is accepted) and past the return for a
  refused connection, and the accumulator is not empty.
\<close>

lemma run_import_report:
  "csv_written (snd (snd (run_import L w self p))) =
     csv_written w @
     (case read_excel w p of
        None \<Rightarrow> []
      | Some df \<Rightarrow>
          if List.map_filter (accepted L) (iterrows df) = [] then []
          else if \<not> db_reachable w (db_config self) then []
          else if error_records self @ List.map_filter (rejected L) (iterrows df) = [] then []
          else [(replace p ''.xlsx'' ''_fehler.csv'',
                 error_records self @ List.map_filter (rejected L) (iterrows df))])"
  by (simp add: run_import_eq save_error_report_def Let_def split: option.splits)

lemma outcomes_replicate_A:
  "List.map_filter (accepted sample_library) (enumerate n (replicate k (full row_A)))
     = replicate k
        \<lparr>segment.leitung_id = Str ''L_SPECIAL_01'', material = Str ''PE'', durchmesser = 800,
          verlegedatum = Timestamp 2020 1 15, bemerkung = Str [],
          geometry = LineString [(2683000, 1248000), (2683100, 1248100)],
          import_datum = Timestamp 2024 1 1\<rparr>
   \<and> List.map_filter (rejected sample_library) (enumerate n (replicate k (full row_A))) = []"
  by (induction k arbitrary: n) (simp_all add: List.map_filter_simps)

text \<open>Scenario F: ten valid rows, a fresh importer: no report, one batch of ten.\<close>

lemma scenario_F:
  "fst (run_import sample_library (sample_world (frame (replicate 10 row_A))) (init [])
         ''leitungen.xlsx'') = Inr True
   \<and> csv_written (snd (snd (run_import sample_library
         (sample_world (frame (replicate 10 row_A))) (init []) ''leitungen.xlsx''))) = []
   \<and> map length (db_committed (snd (snd (run_import sample_library
         (sample_world (frame (replicate 10 row_A))) (init []) ''leitungen.xlsx'')))) = [10]"
proof -
  have i: "iterrows (frame (replicate 10 (row_A))) = enumerate 0 (replicate 10 (full row_A))"
    by (simp add: iterrows_def frame_def full_def)
  have r: "read_excel (sample_world (frame (replicate 10 row_A))) ''leitungen.xlsx''
      = Some (frame (replicate 10 row_A))"
    by (simp add: read_sample strip_A)
  have w: "db_reachable (sample_world df) cfg" "db_accepts (sample_world df) x"
    "db_commits (sample_world df)" "db_committed (sample_world df) = []"
    "csv_written (sample_world df) = []" for df cfg x
    by (simp_all add: sample_world_def)
  have n: "replicate 10 x \<noteq> []" for x :: segment
    by simp
  show ?thesis
    by (simp add: run_import_eq r i outcomes_replicate_A w n list_all_length
        save_error_report_def init_def Let_def)
qed

text \<open>
  C6 at the failing input: a fresh importer and a workbook whose only row has
  \<^verbatim>\<open>X_Start = 1000000\<close>. The run ends, by the exception of the frame constructor, with
  one entry in the accumulator and no report written.
\<close>

theorem error_report_skipped:
  "error_records (fst (snd (run_import sample_library
       (sample_world (frame [row_A(X_Start := Num 1000000)])) (init []) ''leitungen.xlsx'')))
     = [\<lparr>zeile = 2, error_info.leitung_id = Str ''L_SPECIAL_01'',
         fehler = Startpunkt_ungueltig (X_ausserhalb (Num 1000000))\<rparr>]
   \<and> csv_written (snd (snd (run_import sample_library
       (sample_world (frame [row_A(X_Start := Num 1000000)])) (init []) ''leitungen.xlsx'')))
     = []"
  by (simp add: run_all_rejected) (simp add: sample_world_def)

section \<open>The accumulator across runs\<close>

lemma run_import_errors:
  "error_records (fst (snd (run_import L w self p))) =
     error_records self @
     (case read_excel w p of
        None \<Rightarrow> []
      | Some df \<Rightarrow> List.map_filter (rejected L) (iterrows df))"
  by (simp add: run_import_eq Let_def split: option.splits)

text \<open>
  C8, as amended. The accumulator is created empty with the importer and belongs to it;
  a run never resets it but appends the entries of its rejected rows to what the importer
  holds, so a run starts empty only on an importer that has not run before.
\<close>

theorem accumulator_per_importer:
  "error_records (init cfg) = []
   \<and> error_records (fst (snd (run_import L w self p))) =
       error_records self @
       (case read_excel w p of
          None \<Rightarrow> []
        | Some df \<Rightarrow> List.map_filter (rejected L) (iterrows df))"
  by (simp add: run_import_errors) (simp add: init_def)

text \<open>
  C8 as stated fails: two runs of one importer on a workbook with one bad row. The second
  run starts with the entry of the first and ends with two entries.
\<close>

theorem accumulator_carried_over:
  "error_records (fst (snd (run_import sample_library
       (sample_world (frame [row_A, row_A(X_Start := Num 1000000)])) (init [])
       ''leitungen.xlsx'')))
     = [\<lparr>zeile = 3, error_info.leitung_id = Str ''L_SPECIAL_01'',
         fehler = Startpunkt_ungueltig (X_ausserhalb (Num 1000000))\<rparr>]
   \<and> error_records (fst (snd (run_import sample_library
       (snd (snd (run_import sample_library
          (sample_world (frame [row_A, row_A(X_Start := Num 1000000)])) (init [])
          ''leitungen.xlsx'')))
       (fst (snd (run_import sample_library
          (sample_world (frame [row_A, row_A(X_Start := Num 1000000)])) (init [])
          ''leitungen.xlsx'')))
       ''leitungen.xlsx'')))
     = [\<lparr>zeile = 3, error_info.leitung_id = Str ''L_SPECIAL_01'',
         fehler = Startpunkt_ungueltig (X_ausserhalb (Num 1000000))\<rparr>,
        \<lparr>zeile = 3, error_info.leitung_id = Str ''L_SPECIAL_01'',
         fehler = Startpunkt_ungueltig (X_ausserhalb (Num 1000000))\<rparr>]"
proof -
  have r: "read_excel (w\<lparr>db_committed := a, csv_written := b\<rparr>) p = read_excel w p" for w a b p
    by (simp add: read_excel_def)
  show ?thesis
    unfolding run_mixed
    by (simp add: run_import_errors r read_sample strip_A strip_C iterrows_frame2
        List.map_filter_simps numeral_3_eq_3)
qed

section \<open>The geometry text\<close>

lemma split_on_none: "d \<notin> set s \<Longrightarrow> split_on d s = [s]"
  by (induction s) auto

lemma split_on_first: "d \<notin> set a \<Longrightarrow> split_on d (a @ d # b) = a # split_on d b"
  by (induction a) auto

lemma read_point_plain:
  assumes "readable_coord fmt rd x" and "readable_coord fmt rd y"
  shows "read_point rd (fmt x @ '' '' @ fmt y) = Some (x, y)"
proof -
  from assms(1) obtain c cs where c: "fmt x = c # cs" "c \<noteq> CHR '' ''"
    by (cases "fmt x") (auto simp: readable_coord_def)
  then have "dropWhile (\<lambda>c. c = CHR '' '') (fmt x @ '' '' @ fmt y) = fmt x @ '' '' @ fmt y"
    by simp
  moreover have "split_on CHR '' '' (fmt x @ CHR '' '' # fmt y) = [fmt x, fmt y]"
    using assms by (simp add: split_on_first split_on_none readable_coord_def)
  ultimately show ?thesis
    using assms by (simp add: read_point_def readable_coord_def)
qed

lemma read_point_led:
  assumes "readable_coord fmt rd x" and "readable_coord fmt rd y"
  shows "read_point rd ('' '' @ fmt x @ '' '' @ fmt y) = Some (x, y)"
proof -
  from assms(1) obtain c cs where c: "fmt x = c # cs" "c \<noteq> CHR '' ''"
    by (cases "fmt x") (auto simp: readable_coord_def)
  then have "dropWhile (\<lambda>c. c = CHR '' '') ('' '' @ fmt x @ '' '' @ fmt y)
      = dropWhile (\<lambda>c. c = CHR '' '') (fmt x @ '' '' @ fmt y)"
    by simp
  then have "read_point rd ('' '' @ fmt x @ '' '' @ fmt y)
      = read_point rd (fmt x @ '' '' @ fmt y)"
    by (simp add: read_point_def)
  with read_point_plain [OF assms] show ?thesis by simp
qed

lemma wkt_two:
  "wkt fmt (LineString [(x1, y1), (x2, y2)]) =
     ''LINESTRING ('' @ (fmt x1 @ '' '' @ fmt y1) @ '','' @ ('' '' @ fmt x2 @ '' '' @ fmt y2)
       @ '')''"
  by (simp add: wkt_def)

lemma read_wkt_two:
  assumes "readable_coord fmt rd x1" "readable_coord fmt rd y1"
    "readable_coord fmt rd x2" "readable_coord fmt rd y2"
  shows "read_wkt rd (wkt fmt (LineString [(x1, y1), (x2, y2)])) = Some [(x1, y1), (x2, y2)]"
proof -
  let ?p = "fmt x1 @ '' '' @ fmt y1" and ?q = "'' '' @ fmt x2 @ '' '' @ fmt y2"
  let ?s = "''LINESTRING ('' @ ?p @ '','' @ ?q @ '')''"
  have b: "butlast (drop 12 ?s) = ?p @ CHR '','' # ?q"
    by (simp add: butlast_append)
  have np: "CHR '','' \<notin> set ?p" and nq: "CHR '','' \<notin> set ?q"
    using assms by (simp_all add: readable_coord_def)
  have "split_on CHR '','' (?p @ CHR '','' # ?q) = ?p # split_on CHR '','' ?q"
    using np by (rule split_on_first)
  also have "split_on CHR '','' ?q = [?q]"
    using nq by (rule split_on_none)
  finally have s: "split_on CHR '','' (?p @ CHR '','' # ?q) = [?p, ?q]" .
  have l: "take 12 ?s = ''LINESTRING ('' \<and> 12 < length ?s \<and> last ?s = CHR '')''"
    by simp
  have "read_wkt rd ?s = those (map (read_point rd) [?p, ?q])"
    unfolding read_wkt_def b s using l by simp
  also have "\<dots> = Some [(x1, y1), (x2, y2)]"
    using read_point_plain [OF assms(1,2)] read_point_led [OF assms(3,4)] by simp
  finally show ?thesis
    unfolding wkt_two .
qed

lemma try_row_geometry:
  assumes "try_row L idx row = Inr seg"
    and "row X_Start = Some xs" "row Y_Start = Some ys" "row X_End = Some xe"
    "row Y_End = Some ye"
  shows "create_line_geometry xs ys xe ye = Inr (geometry seg)"
  using assms
  by (auto simp: try_row_def getitem_def bind_exn_def split: sum.splits option.splits)

text \<open>
  C9. A line built from (x1, y1) and (x2, y2) has exactly these two vertices, start first;
  the text the insert statement receives for a record with this geometry is the
  well-known text of that line; and reading this text back gives the two vertices in the
  same order, provided the reader of a number inverts the number format on the four
  coordinates and the printed numbers are non-empty and free of blanks and commas.
\<close>

theorem wkt_roundtrip:
  assumes "create_line_geometry (Num x1) (Num y1) (Num x2) (Num y2) = Inr g"
    and "readable_coord (fmt_coord L) rd x1" "readable_coord (fmt_coord L) rd y1"
    "readable_coord (fmt_coord L) rd x2" "readable_coord (fmt_coord L) rd y2"
  shows "coords g = [(x1, y1), (x2, y2)]
     \<and> fst (snd (snd (snd (snd (snd (insert_params L (seg\<lparr>geometry := g\<rparr>)))))))
         = wkt (fmt_coord L) g
     \<and> read_wkt rd (wkt (fmt_coord L) g) = Some [(x1, y1), (x2, y2)]"
proof -
  from create_Inr_valid [OF assms(1)]
  have "create_line_geometry (Num x1) (Num y1) (Num x2) (Num y2) =
     (if line_length (LineString [(x1, y1), (x2, y2)]) < 1/2
      then Inl (ValueError (Leitung_zu_kurz (line_length (LineString [(x1, y1), (x2, y2)]))))
      else Inr (LineString [(x1, y1), (x2, y2)]))"
    by (intro create_valid) simp_all
  with assms(1) have g: "g = LineString [(x1, y1), (x2, y2)]"
    by (simp split: if_splits)
  have 1: "coords g = [(x1, y1), (x2, y2)]"
    by (simp add: g)
  have 2: "fst (snd (snd (snd (snd (snd (insert_params L (seg\<lparr>geometry := g\<rparr>)))))))
         = wkt (fmt_coord L) g"
    by (simp add: insert_params_def)
  have 3: "read_wkt rd (wkt (fmt_coord L) g) = Some [(x1, y1), (x2, y2)]"
    unfolding g using assms(2-5) by (rule read_wkt_two)
  from 1 2 3 show ?thesis by blast
qed

lemma fmt_sample:
  "fmt_integer 2683000 = ''2683000''" "fmt_integer 1248000 = ''1248000''"
  "fmt_integer 2683100 = ''2683100''" "fmt_integer 1248100 = ''1248100''"
  by (simp_all add: fmt_integer_def)

lemma read_sample_coords:
  "read_integer ''2683000'' = Some 2683000" "read_integer ''1248000'' = Some 1248000"
  "read_integer ''2683100'' = Some 2683100" "read_integer ''1248100'' = Some 1248100"
  by (simp_all add: read_integer_def int_of_string_def c_isspace_def ascii_space_def
      is_digit_def digit_value_def)

theorem wkt_roundtrip_witness:
  "wkt fmt_integer (LineString [(2683000, 1248000), (2683100, 1248100)])
     = ''LINESTRING (2683000 1248000, 2683100 1248100)''
   \<and> read_wkt read_integer ''LINESTRING (2683000 1248000, 2683100 1248100)''
     = Some [(2683000, 1248000), (2683100, 1248100)]"
proof -
  have f: "fmt_coord sample_library = fmt_integer"
    by (simp add: sample_library_def)
  have r: "readable_coord (fmt_coord sample_library) read_integer 2683000"
    "readable_coord (fmt_coord sample_library) read_integer 1248000"
    "readable_coord (fmt_coord sample_library) read_integer 2683100"
    "readable_coord (fmt_coord sample_library) read_integer 1248100"
    unfolding f by (simp_all add: readable_coord_def fmt_sample read_sample_coords)
  have w: "wkt fmt_integer (LineString [(2683000, 1248000), (2683100, 1248100)])
     = ''LINESTRING (2683000 1248000, 2683100 1248100)''"
    by (simp add: wkt_def fmt_sample)
  from wkt_roundtrip [OF create_A r] show ?thesis
    unfolding f w by (simp add: w)
qed

end
